theory Spec2Isabelle
  imports Main "HOL-Library.Finite_Map" "HOL-Library.Sublist"
begin

section \<open>Values shared by the package\<close>

text \<open>
  A Go \<^verbatim>\<open>string\<close> and a Go \<^verbatim>\<open>[]byte\<close> are sequences of bytes: \<^typ>\<open>string\<close>, a list
  of 8-bit characters. A Go \<^verbatim>\<open>error\<close> is a value of the type below; the package creates no
  error of its own, it hands on the ones of the operating system and of the two YAML
  libraries.
\<close>

datatype error =
    ParseError string   \<comment> \<open>the input is not a YAML document the decoder accepts\<close>
  | TypeError string    \<comment> \<open>yaml.v2: a node does not fit the Go type it is decoded into\<close>
  | MarshalError string \<comment> \<open>an encoder gave up\<close>
  | IOError string      \<comment> \<open>\<^verbatim>\<open>os.ReadFile\<close>, \<^verbatim>\<open>os.WriteFile\<close>\<close>

text \<open>
  A YAML document as \<^verbatim>\<open>gopkg.in/yaml.v2\<close> reads it: scalars, sequences, and mappings
  with string keys. A boolean and an integer carry the value the library resolves them to
  and the text they are written with (\<^verbatim>\<open>no\<close> is false, \<^verbatim>\<open>0x10\<close> is 16); a string carries
  its text, and every spelling of null is \<open>YNull\<close>. A mapping is a finite map, as the Go
  map it becomes: the order and the repetition of keys in the text are not part of it.
  Floats, timestamps, binary scalars, aliases and keys that are not strings are outside
  the model.
\<close>

datatype yaml =
    YNull
  | YBool bool string
  | YInt int string
  | YStr string
  | YSeq "yaml list"
  | YMap "(string, yaml) fmap"

text \<open>
  A Go value of type \<^verbatim>\<open>any\<close> stored in one of the \<^verbatim>\<open>O\<close> maps: what the decoder puts
  there (\<open>Generic\<close>, the value without the spelling the document had), or a value of
  the caller's own whose \<^verbatim>\<open>MarshalYAML\<close> method returns an error
  (\<open>Failing_Marshaler\<close>); the decoder never creates the second kind, and which error the
  method returns is not modelled.
\<close>

datatype any =
    Generic yaml
  | Failing_Marshaler

section \<open>NormYAML\<close>

text \<open>
  \<^verbatim>\<open>NormYAML\<close> calls \<^verbatim>\<open>Unmarshal\<close> and \<^verbatim>\<open>Marshal\<close> of \<^verbatim>\<open>sigs.k8s.io/yaml\<close>. The
  library is not part of the package: the two functions are the parameters
  \<open>Unmarshal\<close>, from the bytes to the decoded value or an error, and \<open>Marshal\<close>, from
  a value to its encoding or an error. The value \<^verbatim>\<open>buf\<close> points to is new, so the decoder
  has nothing else to read.
\<close>

definition NormYAML ::
  "(string \<Rightarrow> error + 'v) \<Rightarrow> ('v \<Rightarrow> error + string) \<Rightarrow> string \<Rightarrow> error + string" where
  "NormYAML Unmarshal Marshal y =
     (case Unmarshal y of
        Inl err \<Rightarrow> Inl err
      | Inr buf \<Rightarrow>
          (case Marshal buf of
             Inl err \<Rightarrow> Inl err
           | Inr encoded \<Rightarrow>
               \<comment> \<open>special case: don't write anything when empty\<close>
               if encoded = ''{}\<newline>'' then Inr [] else Inr encoded))"

text \<open>
  What \<^verbatim>\<open>sigs.k8s.io/yaml\<close> answers on a few documents and on their values, the
  values written in the type \<^typ>\<open>yaml\<close>. The two functions stand for the library in the
  examples, which use these documents only; on anything else they answer with an error,
  which says nothing about the library. The empty document decodes to nil, and nil is
  encoded as \<^verbatim>\<open>null\<close>.

  Two of the documents are valid YAML that the library does not take through. The first
  is \<open>del_text\<close>, six bytes: a double-quoted scalar that holds the escape of the byte
  0x7F (a backslash, then \<^verbatim>\<open>x7f\<close>). It decodes to the string of the one byte 0x7F.
  \<^verbatim>\<open>Marshal\<close> writes a value as JSON and reads the JSON back as YAML; \<^verbatim>\<open>encoding/json\<close>
  leaves the byte 0x7F as it is, the YAML reader refuses it, and \<^verbatim>\<open>Marshal\<close> returns the
  reader's error. The second is \<^verbatim>\<open>.nan\<close>, the float that is not a number: \<^verbatim>\<open>Unmarshal\<close>
  goes through JSON too, which has no such value, and returns an error.
\<close>

definition del_text :: string where
  "del_text = [CHR 0x22, CHR 0x5C, CHR ''x'', CHR ''7'', CHR ''f'', CHR 0x22]"

definition sample_Unmarshal :: "string \<Rightarrow> error + yaml" where
  "sample_Unmarshal y =
     (if y = [] then Inr YNull
      else if y = ''null\<newline>'' then Inr YNull
      else if y = ''{}'' then Inr (YMap fmempty)
      else if y = ''{}\<newline>'' then Inr (YMap fmempty)
      else if y = ''[]\<newline>'' then Inr (YSeq [])
      else if y = ''a: 1\<newline>'' then Inr (YMap (fmupd ''a'' (YInt 1 ''1'') fmempty))
      else if y = ''{a: 1}'' then Inr (YMap (fmupd ''a'' (YInt 1 ''1'') fmempty))
      else if y = del_text then Inr (YStr [CHR 0x7F])
      else if y = ''.nan''
        then Inl (ParseError ''error converting YAML to JSON: json: unsupported value: NaN'')
      else Inl (ParseError ''not one of the sample documents''))"

definition sample_Marshal :: "yaml \<Rightarrow> error + string" where
  "sample_Marshal v =
     (if v = YNull then Inr (''null\<newline>'')
      else if v = YMap fmempty then Inr (''{}\<newline>'')
      else if v = YSeq [] then Inr (''[]\<newline>'')
      else if v = YMap (fmupd ''a'' (YInt 1 ''1'') fmempty) then Inr (''a: 1\<newline>'')
      else if v = YStr [CHR 0x7F]
        then Inl (MarshalError ''yaml: control characters are not allowed'')
      else Inl (MarshalError ''not one of the sample values''))"

section \<open>\<^verbatim>\<open>%q\<close>: \<^verbatim>\<open>strconv.Quote\<close>\<close>

text \<open>
  \<^verbatim>\<open>fmt.Sprintf\<close> formats a string under \<^verbatim>\<open>%q\<close> with \<^verbatim>\<open>strconv.AppendQuote\<close>: the
  string between double quotes, read rune by rune, with the quote, the backslash and
  every rune that is not printable escaped. Runes are natural numbers here.
\<close>

definition RuneError :: nat where
  "RuneError = 0xFFFD"

definition RuneSelf :: nat where
  "RuneSelf = 0x80"

text \<open>
  \<^verbatim>\<open>utf8.DecodeRuneInString\<close> on the bytes \<open>s0 # rest\<close>: the rune and its width. An
  invalid or truncated encoding is \<open>(RuneError, 1)\<close>.
\<close>

definition DecodeRuneInString :: "nat \<Rightarrow> nat list \<Rightarrow> nat \<times> nat" where
  "DecodeRuneInString s0 rest =
     (if s0 < 0x80 then (s0, 1)
      else if s0 < 0xC2 \<or> 0xF4 < s0 then (RuneError, 1)
      else
        let sz = (if s0 < 0xE0 then 2 else if s0 < 0xF0 then 3 else 4 :: nat);
            lo = (if s0 = 0xE0 then 0xA0 else if s0 = 0xF0 then 0x90 else 0x80 :: nat);
            hi = (if s0 = 0xED then 0x9F else if s0 = 0xF4 then 0x8F else 0xBF :: nat)
        in if Suc (length rest) < sz then (RuneError, 1)
           else
             let s1 = rest ! 0
             in if s1 < lo \<or> hi < s1 then (RuneError, 1)
                else if sz \<le> 2 then ((s0 mod 32) * 64 + s1 mod 64, 2)
                else
                  let s2 = rest ! 1
                  in if s2 < 0x80 \<or> 0xBF < s2 then (RuneError, 1)
                     else if sz \<le> 3
                       then ((s0 mod 16) * 4096 + (s1 mod 64) * 64 + s2 mod 64, 3)
                     else
                       let s3 = rest ! 2
                       in if s3 < 0x80 \<or> 0xBF < s3 then (RuneError, 1)
                          else ((s0 mod 8) * 262144 + (s1 mod 64) * 4096
                                + (s2 mod 64) * 64 + s3 mod 64, 4))"

text \<open>\<^verbatim>\<open>utf8.AppendRune\<close>: the UTF-8 encoding of a rune.\<close>

definition AppendRune :: "nat \<Rightarrow> string" where
  "AppendRune r =
     (if r \<le> 0x7F then [char_of r]
      else if r \<le> 0x7FF then [char_of (0xC0 + r div 64), char_of (0x80 + r mod 64)]
      else if 0x10FFFF < r \<or> (0xD800 \<le> r \<and> r \<le> 0xDFFF)
        then [char_of (0xEF::nat), char_of (0xBF::nat), char_of (0xBD::nat)]
      else if r \<le> 0xFFFF
        then [char_of (0xE0 + r div 4096), char_of (0x80 + (r div 64) mod 64),
              char_of (0x80 + r mod 64)]
      else [char_of (0xF0 + r div 262144), char_of (0x80 + (r div 4096) mod 64),
            char_of (0x80 + (r div 64) mod 64), char_of (0x80 + r mod 64)])"

text \<open>
  \<^verbatim>\<open>strconv.IsPrint\<close>. Up to \<open>U+00FF\<close> the function decides by itself; above, it
  searches the tables \<^verbatim>\<open>isPrint16\<close>, \<^verbatim>\<open>isNotPrint16\<close>, \<^verbatim>\<open>isPrint32\<close> and
  \<^verbatim>\<open>isNotPrint32\<close> of the Go library, which are the parameter \<open>tables\<close>.
\<close>

definition IsPrint :: "(nat \<Rightarrow> bool) \<Rightarrow> nat \<Rightarrow> bool" where
  "IsPrint tables r =
     (if r \<le> 0xFF then
        (if 0x20 \<le> r \<and> r \<le> 0x7E then True
         else if 0xA1 \<le> r \<and> r \<le> 0xFF then r \<noteq> 0xAD
         else False)
      else tables r)"

definition lowerhex :: "nat \<Rightarrow> char" where
  "lowerhex n = ''0123456789abcdef'' ! (n mod 16)"

text \<open>The digits of \<open>r\<close> in base 16, \<open>n\<close> of them, as \<^verbatim>\<open>\u\<close> and \<^verbatim>\<open>\U\<close> print them.\<close>

fun hexdigits :: "nat \<Rightarrow> nat \<Rightarrow> string" where
  "hexdigits 0 r = []"
| "hexdigits (Suc n) r = hexdigits n (r div 16) @ [lowerhex r]"

definition backslash :: char where
  "backslash = CHR 0x5C"

definition dquote :: char where
  "dquote = CHR 0x22"

text \<open>
  \<^verbatim>\<open>strconv.appendEscapedRune\<close> with the quote \<^verbatim>\<open>"\<close>, \<^verbatim>\<open>ASCIIonly\<close> and
  \<^verbatim>\<open>graphicOnly\<close> false.
\<close>

definition appendEscapedRune :: "(nat \<Rightarrow> bool) \<Rightarrow> nat \<Rightarrow> string" where
  "appendEscapedRune tables r =
     (if r = of_char dquote \<or> r = of_char backslash then [backslash, char_of r]
      else if IsPrint tables r then AppendRune r
      else if r = 0x07 then [backslash, CHR ''a'']
      else if r = 0x08 then [backslash, CHR ''b'']
      else if r = 0x0C then [backslash, CHR ''f'']
      else if r = 0x0A then [backslash, CHR ''n'']
      else if r = 0x0D then [backslash, CHR ''r'']
      else if r = 0x09 then [backslash, CHR ''t'']
      else if r = 0x0B then [backslash, CHR ''v'']
      else if r < 0x20 \<or> r = 0x7F then [backslash, CHR ''x''] @ hexdigits 2 r
      else if 0x10FFFF < r \<or> (0xD800 \<le> r \<and> r \<le> 0xDFFF)
        then [backslash, CHR ''u''] @ hexdigits 4 0xFFFD
      else if r < 0x10000 then [backslash, CHR ''u''] @ hexdigits 4 r
      else [backslash, CHR ''U''] @ hexdigits 8 r)"

text \<open>
  The loop of \<^verbatim>\<open>strconv.appendQuotedWith\<close>,
  \<^verbatim>\<open>for width := 0; len(s) > 0; s = s[width:]\<close>. The first argument counts the bytes of
  the current rune that are still to be passed over.
\<close>

fun quote_loop :: "(nat \<Rightarrow> bool) \<Rightarrow> nat \<Rightarrow> string \<Rightarrow> string" where
  "quote_loop tables skip [] = []"
| "quote_loop tables (Suc skip) (c # s) = quote_loop tables skip s"
| "quote_loop tables 0 (c # s) =
     (let (r, width) =
            (if of_char c \<ge> RuneSelf then DecodeRuneInString (of_char c) (map of_char s)
             else (of_char c, 1))
      in (if width = 1 \<and> r = RuneError
          then [backslash, CHR ''x''] @ hexdigits 2 (of_char c)
          else appendEscapedRune tables r)
         @ quote_loop tables (width - 1) s)"

definition Quote :: "(nat \<Rightarrow> bool) \<Rightarrow> string \<Rightarrow> string" where
  "Quote tables s = [dquote] @ quote_loop tables 0 s @ [dquote]"

section \<open>AuthProvider and its redacted display\<close>

record AuthProvider =
  AuthProvider_Name :: string                               \<comment> \<open>\<^verbatim>\<open>yaml:"name"\<close>\<close>
  AuthProvider_Config :: "(string, string) fmap option"     \<comment> \<open>\<^verbatim>\<open>yaml:"config,omitempty"\<close>; \<open>None\<close> is the nil map\<close>
  AuthProvider_O :: "(string, any) fmap"                    \<comment> \<open>\<^verbatim>\<open>yaml:",inline,omitempty"\<close>\<close>

definition AuthProvider_String :: "(nat \<Rightarrow> bool) \<Rightarrow> AuthProvider \<Rightarrow> string" where
  "AuthProvider_String tables c =
     (let cfg = (if AuthProvider_Config c \<noteq> None then ''--- REDACTED ---'' else ''<nil>'')
      in ''api.AuthProvider{Name: '' @ Quote tables (AuthProvider_Name c)
         @ '', Config: map[string]string{'' @ cfg @ ''}}'')"

definition AuthProvider_GoString :: "(nat \<Rightarrow> bool) \<Rightarrow> AuthProvider \<Rightarrow> string" where
  "AuthProvider_GoString tables c = AuthProvider_String tables c"

text \<open>
  The characters \<^verbatim>\<open>%q\<close> copies as they are: printable ASCII other than the double
  quote and the backslash.
\<close>

definition plain_ascii :: "char \<Rightarrow> bool" where
  "plain_ascii c =
     (0x20 \<le> (of_char c :: nat) \<and> (of_char c :: nat) \<le> 0x7E \<and> c \<noteq> dquote \<and> c \<noteq> backslash)"

text \<open>An AuthProvider whose name holds a double quote and whose secret is \<^verbatim>\<open>api\<close>.\<close>

definition quoted_provider :: AuthProvider where
  "quoted_provider =
     \<lparr>AuthProvider_Name = [CHR ''a'', dquote, CHR ''b''],
      AuthProvider_Config = Some (fmupd ''token'' ''api'' fmempty),
      AuthProvider_O = fmempty\<rparr>"

text \<open>The provider \<^verbatim>\<open>gcp\<close> with three states of its configuration.\<close>

definition gcp_absent :: AuthProvider where
  "gcp_absent =
     \<lparr>AuthProvider_Name = ''gcp'', AuthProvider_Config = None, AuthProvider_O = fmempty\<rparr>"

definition gcp_empty :: AuthProvider where
  "gcp_empty =
     \<lparr>AuthProvider_Name = ''gcp'', AuthProvider_Config = Some fmempty,
      AuthProvider_O = fmempty\<rparr>"

definition gcp_token :: AuthProvider where
  "gcp_token =
     \<lparr>AuthProvider_Name = ''gcp'',
      AuthProvider_Config = Some (fmupd ''access-token'' ''ya29.secret'' fmempty),
      AuthProvider_O = fmupd ''extra'' (Generic (YInt 1 ''1'')) fmempty\<rparr>"

section \<open>The KUBECONFIG types\<close>

text \<open>
  The structs of the package, field by field, with their \<^verbatim>\<open>yaml\<close> tags. A pointer is an
  option, \<open>None\<close> for nil. A slice is a list; the nil slice and the empty slice are one
  list, and so are the nil and the empty \<^verbatim>\<open>O\<close> map: nothing in the package and nothing in
  the encoder asks for more than their length. \<^verbatim>\<open>AuthProvider.Config\<close> is compared with
  nil by \<^verbatim>\<open>String\<close>, and keeps the difference.
\<close>

record Cluster =
  Cluster_Server :: string               \<comment> \<open>\<^verbatim>\<open>yaml:"server"\<close>\<close>
  Cluster_TLSServerName :: string        \<comment> \<open>\<^verbatim>\<open>yaml:"tls-server-name,omitempty"\<close>\<close>
  Cluster_SkipTLSVerify :: bool          \<comment> \<open>\<^verbatim>\<open>yaml:"insecure-skip-tls-verify,omitempty"\<close>\<close>
  Cluster_CertAuthority :: string        \<comment> \<open>\<^verbatim>\<open>yaml:"certificate-authority-data,omitempty"\<close>\<close>
  Cluster_Proxy :: string                \<comment> \<open>\<^verbatim>\<open>yaml:"proxy-url,omitempty"\<close>\<close>
  Cluster_O :: "(string, any) fmap"      \<comment> \<open>\<^verbatim>\<open>yaml:",inline,omitempty"\<close>\<close>

record NCluster =
  NCluster_Name :: string                \<comment> \<open>no tag: the key is \<^verbatim>\<open>name\<close>\<close>
  NCluster_Cluster :: "Cluster option"   \<comment> \<open>no tag: the key is \<^verbatim>\<open>cluster\<close>\<close>

record User =
  User_Cert :: string                    \<comment> \<open>\<^verbatim>\<open>yaml:"client-certificate-data,omitempty"\<close>\<close>
  User_Key :: string                     \<comment> \<open>\<^verbatim>\<open>yaml:"client-key-data,omitempty"\<close>\<close>
  User_Token :: string                   \<comment> \<open>\<^verbatim>\<open>yaml:"token,omitempty"\<close>\<close>
  User_As :: string                      \<comment> \<open>\<^verbatim>\<open>yaml:"act-as,omitempty"\<close>\<close>
  User_AsUID :: string                   \<comment> \<open>\<^verbatim>\<open>yaml:"act-as-uid,omitempty"\<close>\<close>
  User_AsGroups :: "string list"         \<comment> \<open>\<^verbatim>\<open>yaml:"act-as-groups,omitempty"\<close>\<close>
  User_Name :: string                    \<comment> \<open>\<^verbatim>\<open>yaml:"username,omitempty"\<close>\<close>
  User_Pass :: string                    \<comment> \<open>\<^verbatim>\<open>yaml:"password,omitempty"\<close>\<close>
  User_Auth :: "AuthProvider option"     \<comment> \<open>\<^verbatim>\<open>yaml:"auth-provider,omitempty"\<close>\<close>
  User_O :: "(string, any) fmap"         \<comment> \<open>\<^verbatim>\<open>yaml:",inline,omitempty"\<close>\<close>

record NUser =
  NUser_Name :: string                   \<comment> \<open>no tag: the key is \<^verbatim>\<open>name\<close>\<close>
  NUser_User :: "User option"            \<comment> \<open>no tag: the key is \<^verbatim>\<open>user\<close>\<close>

record Context =
  Context_Cluster :: string              \<comment> \<open>\<^verbatim>\<open>yaml:"cluster"\<close>\<close>
  Context_User :: string                 \<comment> \<open>\<^verbatim>\<open>yaml:"user"\<close>\<close>
  Context_Namespace :: string            \<comment> \<open>\<^verbatim>\<open>yaml:"namespace,omitempty"\<close>\<close>
  Context_O :: "(string, any) fmap"      \<comment> \<open>\<^verbatim>\<open>yaml:",inline,omitempty"\<close>\<close>

record NContext =
  NContext_Name :: string                \<comment> \<open>no tag: the key is \<^verbatim>\<open>name\<close>\<close>
  NContext_Context :: "Context option"   \<comment> \<open>no tag: the key is \<^verbatim>\<open>context\<close>\<close>

record KubeConfig =
  KubeConfig_Clusters :: "NCluster option list"   \<comment> \<open>\<^verbatim>\<open>yaml:"clusters,omitempty"\<close>\<close>
  KubeConfig_Contexts :: "NContext option list"   \<comment> \<open>\<^verbatim>\<open>yaml:"contexts,omitempty"\<close>\<close>
  KubeConfig_Users :: "NUser option list"         \<comment> \<open>\<^verbatim>\<open>yaml:"users,omitempty"\<close>\<close>
  KubeConfig_Current :: string                    \<comment> \<open>\<^verbatim>\<open>yaml:"current-context,omitempty"\<close>\<close>
  KubeConfig_O :: "(string, any) fmap"            \<comment> \<open>\<^verbatim>\<open>yaml:",inline,omitempty"\<close>\<close>

text \<open>The YAML keys of the named fields of each struct that has an inline map.\<close>

definition KubeConfig_keys :: "string list" where
  "KubeConfig_keys = [''clusters'', ''contexts'', ''users'', ''current-context'']"

definition Cluster_keys :: "string list" where
  "Cluster_keys = [''server'', ''tls-server-name'', ''insecure-skip-tls-verify'',
     ''certificate-authority-data'', ''proxy-url'']"

definition User_keys :: "string list" where
  "User_keys = [''client-certificate-data'', ''client-key-data'', ''token'', ''act-as'',
     ''act-as-uid'', ''act-as-groups'', ''username'', ''password'', ''auth-provider'']"

definition Context_keys :: "string list" where
  "Context_keys = [''cluster'', ''user'', ''namespace'']"

definition AuthProvider_keys :: "string list" where
  "AuthProvider_keys = [''name'', ''config'']"

text \<open>
  The keys of the two fields of the structs of the three lists, which have no inline map.
  A field without a tag has the name of the field in lower case as its key.
\<close>

definition NCluster_keys :: "string list" where
  "NCluster_keys = [''name'', ''cluster'']"

definition NContext_keys :: "string list" where
  "NContext_keys = [''name'', ''context'']"

definition NUser_keys :: "string list" where
  "NUser_keys = [''name'', ''user'']"

text \<open>The zero values of Go.\<close>

definition zero_AuthProvider :: AuthProvider where
  "zero_AuthProvider =
     \<lparr>AuthProvider_Name = [], AuthProvider_Config = None, AuthProvider_O = fmempty\<rparr>"

definition zero_Cluster :: Cluster where
  "zero_Cluster =
     \<lparr>Cluster_Server = [], Cluster_TLSServerName = [], Cluster_SkipTLSVerify = False,
      Cluster_CertAuthority = [], Cluster_Proxy = [], Cluster_O = fmempty\<rparr>"

definition zero_User :: User where
  "zero_User =
     \<lparr>User_Cert = [], User_Key = [], User_Token = [], User_As = [], User_AsUID = [],
      User_AsGroups = [], User_Name = [], User_Pass = [], User_Auth = None,
      User_O = fmempty\<rparr>"

definition zero_Context :: Context where
  "zero_Context =
     \<lparr>Context_Cluster = [], Context_User = [], Context_Namespace = [],
      Context_O = fmempty\<rparr>"

definition zero_NCluster :: NCluster where
  "zero_NCluster = \<lparr>NCluster_Name = [], NCluster_Cluster = None\<rparr>"

definition zero_NUser :: NUser where
  "zero_NUser = \<lparr>NUser_Name = [], NUser_User = None\<rparr>"

definition zero_NContext :: NContext where
  "zero_NContext = \<lparr>NContext_Name = [], NContext_Context = None\<rparr>"

definition zero_KubeConfig :: KubeConfig where
  "zero_KubeConfig =
     \<lparr>KubeConfig_Clusters = [], KubeConfig_Contexts = [], KubeConfig_Users = [],
      KubeConfig_Current = [], KubeConfig_O = fmempty\<rparr>"

section \<open>Decoding with \<^verbatim>\<open>gopkg.in/yaml.v2\<close>\<close>

text \<open>
  \<^verbatim>\<open>Load\<close> hands the bytes and the receiver to \<^verbatim>\<open>yaml.Unmarshal\<close>, and what happens to
  the receiver is decided by the struct tags above under the rules of the library, which
  is not part of the package. The rules, as the library documents and implements them:
  \<^item> a mapping decoded into a struct sets the fields whose keys occur in it and leaves
    the other fields as they are; the inline map is emptied first and then receives the
    pairs whose key is no field's key; a struct without an inline map ignores them;
  \<^item> a sequence decoded into a slice makes a new slice, each element decoded into a new
    zero value;
  \<^item> a null sets the target to its zero value (a pointer to nil);
  \<^item> a pointer that is nil is allocated before the value it points to is decoded;
  \<^item> a scalar that is not null fits a \<^verbatim>\<open>string\<close> with its text, a \<^verbatim>\<open>bool\<close> only when
    it is a boolean; a value that does not fit is a type error, the decoder goes on and
    returns a \<^verbatim>\<open>*yaml.TypeError\<close> at the end.
  The model returns the error alone in that case, not the receiver the decoder has
  filled in part. A \<^verbatim>\<open>string\<close> field receives the text of the scalar as the document
  writes it; a value decoded into an \<^verbatim>\<open>interface{}\<close> is the resolved one, which the
  encoder writes in decimal and as \<^verbatim>\<open>true\<close> or \<^verbatim>\<open>false\<close>.
\<close>

definition sum_bind :: "error + 'a \<Rightarrow> ('a \<Rightarrow> error + 'b) \<Rightarrow> error + 'b" where
  "sum_bind r f = (case r of Inl e \<Rightarrow> Inl e | Inr x \<Rightarrow> f x)"

definition type_error :: "error + 'a" where
  "type_error = Inl (TypeError ''cannot unmarshal'')"

fun decimal :: "nat \<Rightarrow> string" where
  "decimal n =
     (if n < 10 then [''0123456789'' ! n]
      else decimal (n div 10) @ [''0123456789'' ! (n mod 10)])"

definition FormatInt :: "int \<Rightarrow> string" where
  "FormatInt i = (if i < 0 then ''-'' @ decimal (nat (- i)) else decimal (nat i))"

fun is_scalar :: "yaml \<Rightarrow> bool" where
  "is_scalar (YSeq vs) = False"
| "is_scalar (YMap m) = False"
| "is_scalar v = True"

fun scalar_text :: "yaml \<Rightarrow> string" where
  "scalar_text (YStr s) = s"
| "scalar_text (YInt i s) = s"
| "scalar_text (YBool b s) = s"
| "scalar_text v = []"

text \<open>The value a node has as an \<^verbatim>\<open>interface{}\<close>, in the spelling of the encoder.\<close>

primrec resolved :: "yaml \<Rightarrow> yaml" where
  "resolved YNull = YNull"
| "resolved (YBool b s) = YBool b (if b then ''true'' else ''false'')"
| "resolved (YInt i s) = YInt i (FormatInt i)"
| "resolved (YStr s) = YStr s"
| "resolved (YSeq vs) = YSeq (map resolved vs)"
| "resolved (YMap m) = YMap (fmmap resolved m)"

text \<open>
  The decoders take the node and the value the target holds, and return the value it
  holds afterwards.
\<close>

definition decode_string :: "yaml \<Rightarrow> string \<Rightarrow> error + string" where
  "decode_string v old = (if is_scalar v then Inr (scalar_text v) else type_error)"

fun decode_bool :: "yaml \<Rightarrow> bool \<Rightarrow> error + bool" where
  "decode_bool YNull old = Inr False"
| "decode_bool (YBool b s) old = Inr b"
| "decode_bool v old = type_error"

fun decode_list :: "(yaml \<Rightarrow> error + 'a) \<Rightarrow> yaml list \<Rightarrow> error + 'a list" where
  "decode_list dec [] = Inr []"
| "decode_list dec (v # vs) =
     sum_bind (dec v) (\<lambda>x. sum_bind (decode_list dec vs) (\<lambda>xs. Inr (x # xs)))"

fun decode_slice :: "(yaml \<Rightarrow> error + 'a) \<Rightarrow> yaml \<Rightarrow> 'a list \<Rightarrow> error + 'a list" where
  "decode_slice dec YNull old = Inr []"
| "decode_slice dec (YSeq vs) old = decode_list dec vs"
| "decode_slice dec v old = type_error"

definition decode_ptr ::
  "(yaml \<Rightarrow> 's \<Rightarrow> error + 's) \<Rightarrow> 's \<Rightarrow> yaml \<Rightarrow> 's option \<Rightarrow> error + 's option" where
  "decode_ptr dec zero v old =
     (if v = YNull then Inr None
      else sum_bind (dec v (case old of None \<Rightarrow> zero | Some s \<Rightarrow> s)) (\<lambda>s. Inr (Some s)))"

text \<open>\<^verbatim>\<open>map[string]string\<close>: a map that is not nil is kept and receives the pairs.\<close>

fun decode_Config ::
  "yaml \<Rightarrow> (string, string) fmap option \<Rightarrow> error + (string, string) fmap option" where
  "decode_Config YNull old = Inr None"
| "decode_Config (YMap m) old =
     (if fmpred (\<lambda>k. is_scalar) m
      then Inr (Some ((case old of None \<Rightarrow> fmempty | Some held \<Rightarrow> held) ++\<^sub>f fmmap scalar_text m))
      else type_error)"
| "decode_Config v old = type_error"

text \<open>The field with key \<open>k\<close>: decoded when the mapping has the key, left alone otherwise.\<close>

definition decode_field ::
  "(string, yaml) fmap \<Rightarrow> string \<Rightarrow> (yaml \<Rightarrow> 'a \<Rightarrow> error + 'a) \<Rightarrow> 'a \<Rightarrow> error + 'a" where
  "decode_field m k dec old = (case fmlookup m k of None \<Rightarrow> Inr old | Some v \<Rightarrow> dec v old)"

text \<open>The inline map after decoding the mapping \<open>m\<close> into a struct with the keys \<open>keys\<close>.\<close>

definition inline_O :: "string list \<Rightarrow> (string, yaml) fmap \<Rightarrow> (string, any) fmap" where
  "inline_O keys m = fmfilter (\<lambda>k. k \<notin> set keys) (fmmap (\<lambda>v. Generic (resolved v)) m)"

fun decode_AuthProvider :: "yaml \<Rightarrow> AuthProvider \<Rightarrow> error + AuthProvider" where
  "decode_AuthProvider YNull old = Inr zero_AuthProvider"
| "decode_AuthProvider (YMap m) old =
     sum_bind (decode_field m ''name'' decode_string (AuthProvider_Name old)) (\<lambda>name.
     sum_bind (decode_field m ''config'' decode_Config (AuthProvider_Config old)) (\<lambda>config.
     Inr \<lparr>AuthProvider_Name = name, AuthProvider_Config = config,
          AuthProvider_O = inline_O AuthProvider_keys m\<rparr>))"
| "decode_AuthProvider v old = type_error"

fun decode_Cluster :: "yaml \<Rightarrow> Cluster \<Rightarrow> error + Cluster" where
  "decode_Cluster YNull old = Inr zero_Cluster"
| "decode_Cluster (YMap m) old =
     sum_bind (decode_field m ''server'' decode_string (Cluster_Server old)) (\<lambda>server.
     sum_bind (decode_field m ''tls-server-name'' decode_string (Cluster_TLSServerName old)) (\<lambda>tls.
     sum_bind (decode_field m ''insecure-skip-tls-verify'' decode_bool (Cluster_SkipTLSVerify old)) (\<lambda>skip.
     sum_bind (decode_field m ''certificate-authority-data'' decode_string (Cluster_CertAuthority old)) (\<lambda>ca.
     sum_bind (decode_field m ''proxy-url'' decode_string (Cluster_Proxy old)) (\<lambda>proxy.
     Inr \<lparr>Cluster_Server = server, Cluster_TLSServerName = tls, Cluster_SkipTLSVerify = skip,
          Cluster_CertAuthority = ca, Cluster_Proxy = proxy,
          Cluster_O = inline_O Cluster_keys m\<rparr>)))))"
| "decode_Cluster v old = type_error"

fun decode_Context :: "yaml \<Rightarrow> Context \<Rightarrow> error + Context" where
  "decode_Context YNull old = Inr zero_Context"
| "decode_Context (YMap m) old =
     sum_bind (decode_field m ''cluster'' decode_string (Context_Cluster old)) (\<lambda>cluster.
     sum_bind (decode_field m ''user'' decode_string (Context_User old)) (\<lambda>user.
     sum_bind (decode_field m ''namespace'' decode_string (Context_Namespace old)) (\<lambda>namespace.
     Inr \<lparr>Context_Cluster = cluster, Context_User = user, Context_Namespace = namespace,
          Context_O = inline_O Context_keys m\<rparr>)))"
| "decode_Context v old = type_error"

fun decode_User :: "yaml \<Rightarrow> User \<Rightarrow> error + User" where
  "decode_User YNull old = Inr zero_User"
| "decode_User (YMap m) old =
     sum_bind (decode_field m ''client-certificate-data'' decode_string (User_Cert old)) (\<lambda>cert.
     sum_bind (decode_field m ''client-key-data'' decode_string (User_Key old)) (\<lambda>key.
     sum_bind (decode_field m ''token'' decode_string (User_Token old)) (\<lambda>token.
     sum_bind (decode_field m ''act-as'' decode_string (User_As old)) (\<lambda>as.
     sum_bind (decode_field m ''act-as-uid'' decode_string (User_AsUID old)) (\<lambda>uid.
     sum_bind (decode_field m ''act-as-groups'' (decode_slice (\<lambda>v. decode_string v [])) (User_AsGroups old)) (\<lambda>groups.
     sum_bind (decode_field m ''username'' decode_string (User_Name old)) (\<lambda>name.
     sum_bind (decode_field m ''password'' decode_string (User_Pass old)) (\<lambda>pass.
     sum_bind (decode_field m ''auth-provider'' (decode_ptr decode_AuthProvider zero_AuthProvider) (User_Auth old)) (\<lambda>auth.
     Inr \<lparr>User_Cert = cert, User_Key = key, User_Token = token, User_As = as,
          User_AsUID = uid, User_AsGroups = groups, User_Name = name, User_Pass = pass,
          User_Auth = auth, User_O = inline_O User_keys m\<rparr>)))))))))"
| "decode_User v old = type_error"

fun decode_NCluster :: "yaml \<Rightarrow> NCluster \<Rightarrow> error + NCluster" where
  "decode_NCluster YNull old = Inr zero_NCluster"
| "decode_NCluster (YMap m) old =
     sum_bind (decode_field m ''name'' decode_string (NCluster_Name old)) (\<lambda>name.
     sum_bind (decode_field m ''cluster'' (decode_ptr decode_Cluster zero_Cluster) (NCluster_Cluster old)) (\<lambda>cluster.
     Inr \<lparr>NCluster_Name = name, NCluster_Cluster = cluster\<rparr>))"
| "decode_NCluster v old = type_error"

fun decode_NContext :: "yaml \<Rightarrow> NContext \<Rightarrow> error + NContext" where
  "decode_NContext YNull old = Inr zero_NContext"
| "decode_NContext (YMap m) old =
     sum_bind (decode_field m ''name'' decode_string (NContext_Name old)) (\<lambda>name.
     sum_bind (decode_field m ''context'' (decode_ptr decode_Context zero_Context) (NContext_Context old)) (\<lambda>context.
     Inr \<lparr>NContext_Name = name, NContext_Context = context\<rparr>))"
| "decode_NContext v old = type_error"

fun decode_NUser :: "yaml \<Rightarrow> NUser \<Rightarrow> error + NUser" where
  "decode_NUser YNull old = Inr zero_NUser"
| "decode_NUser (YMap m) old =
     sum_bind (decode_field m ''name'' decode_string (NUser_Name old)) (\<lambda>name.
     sum_bind (decode_field m ''user'' (decode_ptr decode_User zero_User) (NUser_User old)) (\<lambda>user.
     Inr \<lparr>NUser_Name = name, NUser_User = user\<rparr>))"
| "decode_NUser v old = type_error"

fun decode_KubeConfig :: "yaml \<Rightarrow> KubeConfig \<Rightarrow> error + KubeConfig" where
  "decode_KubeConfig YNull old = Inr zero_KubeConfig"
| "decode_KubeConfig (YMap m) old =
     sum_bind (decode_field m ''clusters''
        (decode_slice (\<lambda>v. decode_ptr decode_NCluster zero_NCluster v None))
        (KubeConfig_Clusters old)) (\<lambda>clusters.
     sum_bind (decode_field m ''contexts''
        (decode_slice (\<lambda>v. decode_ptr decode_NContext zero_NContext v None))
        (KubeConfig_Contexts old)) (\<lambda>contexts.
     sum_bind (decode_field m ''users''
        (decode_slice (\<lambda>v. decode_ptr decode_NUser zero_NUser v None))
        (KubeConfig_Users old)) (\<lambda>users.
     sum_bind (decode_field m ''current-context'' decode_string (KubeConfig_Current old)) (\<lambda>current.
     Inr \<lparr>KubeConfig_Clusters = clusters, KubeConfig_Contexts = contexts,
          KubeConfig_Users = users, KubeConfig_Current = current,
          KubeConfig_O = inline_O KubeConfig_keys m\<rparr>))))"
| "decode_KubeConfig v old = type_error"

text \<open>
  \<^verbatim>\<open>yaml.Unmarshal(buf, c)\<close>. The reader of the library is the parameter \<open>parse\<close>: the
  value of the document in the bytes, \<open>None\<close> when the bytes hold no document, or a
  syntax error. Without a document the decoder touches nothing.
\<close>

definition yaml_Unmarshal ::
  "(string \<Rightarrow> error + yaml option) \<Rightarrow> string \<Rightarrow> KubeConfig \<Rightarrow> error + KubeConfig" where
  "yaml_Unmarshal parse buf c =
     (case parse buf of
        Inl err \<Rightarrow> Inl err
      | Inr None \<Rightarrow> Inr c
      | Inr (Some v) \<Rightarrow> decode_KubeConfig v c)"

text \<open>
  \<^verbatim>\<open>Load\<close>. \<open>ReadFile\<close> is \<^verbatim>\<open>os.ReadFile\<close> on the file system of the moment. The result
  is the error, or the receiver after the call.
\<close>

definition KubeConfig_Load ::
  "(string \<Rightarrow> error + string) \<Rightarrow> (string \<Rightarrow> error + yaml option) \<Rightarrow> string \<Rightarrow> KubeConfig
   \<Rightarrow> error + KubeConfig" where
  "KubeConfig_Load ReadFile parse path c =
     (case ReadFile path of
        Inl err \<Rightarrow> Inl err
      | Inr buf \<Rightarrow> yaml_Unmarshal parse buf c)"

section \<open>Encoding with \<^verbatim>\<open>gopkg.in/yaml.v2\<close>\<close>

text \<open>
  A call of the encoder returns bytes, returns an error, or panics. The rules of the
  library for the struct tags: the fields in the order of their declaration, a field with
  \<^verbatim>\<open>omitempty\<close> left out when it is the empty string, false, nil or of length zero; a nil
  pointer is written as null; then the pairs of the inline map. A key of the inline map
  that is the key of a field makes the encoder panic; a value whose \<^verbatim>\<open>MarshalYAML\<close>
  fails makes \<^verbatim>\<open>Marshal\<close> return its error. The encoder walks the keys of the inline map
  in sorted order and stops at the first of these keys it meets. The order is the one of
  \<^verbatim>\<open>keyList.Less\<close> in the library, the parameter \<open>key_less\<close> of the encoders.
\<close>

datatype 'a outcome = Ok 'a | Err error | Panic

definition outcome_bind :: "'a outcome \<Rightarrow> ('a \<Rightarrow> 'b outcome) \<Rightarrow> 'b outcome" where
  "outcome_bind r f = (case r of Ok x \<Rightarrow> f x | Err e \<Rightarrow> Err e | Panic \<Rightarrow> Panic)"

fun yaml_of :: "any \<Rightarrow> yaml" where
  "yaml_of (Generic v) = v"
| "yaml_of Failing_Marshaler = YNull"

text \<open>The keys of an inline map at which the encoder stops.\<close>

definition stops_at :: "string list \<Rightarrow> (string, any) fmap \<Rightarrow> string fset" where
  "stops_at keys inline =
     ffilter (\<lambda>k. k \<in> set keys \<or> fmlookup inline k = Some Failing_Marshaler) (fmdom inline)"

text \<open>
  The first of them in the order of the walk decides: the key of a field is a panic,
  before its value is looked at; any other is the error of \<^verbatim>\<open>MarshalYAML\<close>.
\<close>

definition encode_inline ::
  "(string \<Rightarrow> string \<Rightarrow> bool) \<Rightarrow> string list \<Rightarrow> (string, any) fmap \<Rightarrow> (string, yaml) fmap
   \<Rightarrow> yaml outcome" where
  "encode_inline key_less keys inline named =
     (if stops_at keys inline = {||} then Ok (YMap (named ++\<^sub>f fmmap yaml_of inline))
      else if fBex (stops_at keys inline)
                (\<lambda>k. k \<in> set keys \<and> fBall (stops_at keys inline) (\<lambda>k'. k' = k \<or> key_less k k'))
        then Panic
      else Err (MarshalError ''MarshalYAML''))"

definition omitempty_string :: "string \<Rightarrow> string \<Rightarrow> (string, yaml) fmap \<Rightarrow> (string, yaml) fmap" where
  "omitempty_string k s named = (if s = [] then named else fmupd k (YStr s) named)"

definition omitempty_bool :: "string \<Rightarrow> bool \<Rightarrow> (string, yaml) fmap \<Rightarrow> (string, yaml) fmap" where
  "omitempty_bool k b named = (if b then fmupd k (YBool True ''true'') named else named)"

definition omitempty_seq :: "string \<Rightarrow> yaml list \<Rightarrow> (string, yaml) fmap \<Rightarrow> (string, yaml) fmap" where
  "omitempty_seq k vs named = (if vs = [] then named else fmupd k (YSeq vs) named)"

definition omitempty_ptr :: "string \<Rightarrow> yaml option \<Rightarrow> (string, yaml) fmap \<Rightarrow> (string, yaml) fmap" where
  "omitempty_ptr k p named = (case p of None \<Rightarrow> named | Some v \<Rightarrow> fmupd k v named)"

definition omitempty_Config ::
  "string \<Rightarrow> (string, string) fmap option \<Rightarrow> (string, yaml) fmap \<Rightarrow> (string, yaml) fmap" where
  "omitempty_Config k config named =
     (case config of
        None \<Rightarrow> named
      | Some held \<Rightarrow> if held = fmempty then named else fmupd k (YMap (fmmap YStr held)) named)"

fun encode_list :: "('a \<Rightarrow> yaml outcome) \<Rightarrow> 'a list \<Rightarrow> yaml list outcome" where
  "encode_list enc [] = Ok []"
| "encode_list enc (x # xs) =
     outcome_bind (enc x) (\<lambda>v. outcome_bind (encode_list enc xs) (\<lambda>vs. Ok (v # vs)))"

definition encode_ptr :: "('a \<Rightarrow> yaml outcome) \<Rightarrow> 'a option \<Rightarrow> yaml outcome" where
  "encode_ptr enc p = (case p of None \<Rightarrow> Ok YNull | Some x \<Rightarrow> enc x)"

definition encode_AuthProvider :: "(string \<Rightarrow> string \<Rightarrow> bool) \<Rightarrow> AuthProvider \<Rightarrow> yaml outcome" where
  "encode_AuthProvider key_less a =
     encode_inline key_less AuthProvider_keys (AuthProvider_O a)
       (omitempty_Config ''config'' (AuthProvider_Config a)
       (fmupd ''name'' (YStr (AuthProvider_Name a)) fmempty))"

definition encode_Cluster :: "(string \<Rightarrow> string \<Rightarrow> bool) \<Rightarrow> Cluster \<Rightarrow> yaml outcome" where
  "encode_Cluster key_less c =
     encode_inline key_less Cluster_keys (Cluster_O c)
       (omitempty_string ''proxy-url'' (Cluster_Proxy c)
       (omitempty_string ''certificate-authority-data'' (Cluster_CertAuthority c)
       (omitempty_bool ''insecure-skip-tls-verify'' (Cluster_SkipTLSVerify c)
       (omitempty_string ''tls-server-name'' (Cluster_TLSServerName c)
       (fmupd ''server'' (YStr (Cluster_Server c)) fmempty)))))"

definition encode_Context :: "(string \<Rightarrow> string \<Rightarrow> bool) \<Rightarrow> Context \<Rightarrow> yaml outcome" where
  "encode_Context key_less c =
     encode_inline key_less Context_keys (Context_O c)
       (omitempty_string ''namespace'' (Context_Namespace c)
       (fmupd ''user'' (YStr (Context_User c))
       (fmupd ''cluster'' (YStr (Context_Cluster c)) fmempty)))"

definition encode_User :: "(string \<Rightarrow> string \<Rightarrow> bool) \<Rightarrow> User \<Rightarrow> yaml outcome" where
  "encode_User key_less u =
     outcome_bind
       (case User_Auth u of
          None \<Rightarrow> Ok None
        | Some a \<Rightarrow> outcome_bind (encode_AuthProvider key_less a) (\<lambda>v. Ok (Some v))) (\<lambda>auth.
     encode_inline key_less User_keys (User_O u)
       (omitempty_ptr ''auth-provider'' auth
       (omitempty_string ''password'' (User_Pass u)
       (omitempty_string ''username'' (User_Name u)
       (omitempty_seq ''act-as-groups'' (map YStr (User_AsGroups u))
       (omitempty_string ''act-as-uid'' (User_AsUID u)
       (omitempty_string ''act-as'' (User_As u)
       (omitempty_string ''token'' (User_Token u)
       (omitempty_string ''client-key-data'' (User_Key u)
       (omitempty_string ''client-certificate-data'' (User_Cert u) fmempty))))))))))"

definition encode_NCluster :: "(string \<Rightarrow> string \<Rightarrow> bool) \<Rightarrow> NCluster \<Rightarrow> yaml outcome" where
  "encode_NCluster key_less n =
     outcome_bind (encode_ptr (encode_Cluster key_less) (NCluster_Cluster n)) (\<lambda>cluster.
     Ok (YMap (fmupd ''cluster'' cluster (fmupd ''name'' (YStr (NCluster_Name n)) fmempty))))"

definition encode_NContext :: "(string \<Rightarrow> string \<Rightarrow> bool) \<Rightarrow> NContext \<Rightarrow> yaml outcome" where
  "encode_NContext key_less n =
     outcome_bind (encode_ptr (encode_Context key_less) (NContext_Context n)) (\<lambda>context.
     Ok (YMap (fmupd ''context'' context (fmupd ''name'' (YStr (NContext_Name n)) fmempty))))"

definition encode_NUser :: "(string \<Rightarrow> string \<Rightarrow> bool) \<Rightarrow> NUser \<Rightarrow> yaml outcome" where
  "encode_NUser key_less n =
     outcome_bind (encode_ptr (encode_User key_less) (NUser_User n)) (\<lambda>user.
     Ok (YMap (fmupd ''user'' user (fmupd ''name'' (YStr (NUser_Name n)) fmempty))))"

definition encode_KubeConfig :: "(string \<Rightarrow> string \<Rightarrow> bool) \<Rightarrow> KubeConfig \<Rightarrow> yaml outcome" where
  "encode_KubeConfig key_less c =
     outcome_bind (encode_list (encode_ptr (encode_NCluster key_less)) (KubeConfig_Clusters c)) (\<lambda>clusters.
     outcome_bind (encode_list (encode_ptr (encode_NContext key_less)) (KubeConfig_Contexts c)) (\<lambda>contexts.
     outcome_bind (encode_list (encode_ptr (encode_NUser key_less)) (KubeConfig_Users c)) (\<lambda>users.
     encode_inline key_less KubeConfig_keys (KubeConfig_O c)
       (omitempty_string ''current-context'' (KubeConfig_Current c)
       (omitempty_seq ''users'' users
       (omitempty_seq ''contexts'' contexts
       (omitempty_seq ''clusters'' clusters fmempty)))))))"

text \<open>
  \<^verbatim>\<open>yaml.Marshal(c)\<close>. The writer of the library is the parameter \<open>emit\<close>: the bytes for
  an encoded value.
\<close>

definition yaml_Marshal ::
  "(string \<Rightarrow> string \<Rightarrow> bool) \<Rightarrow> (yaml \<Rightarrow> string) \<Rightarrow> KubeConfig \<Rightarrow> string outcome" where
  "yaml_Marshal key_less emit c = outcome_bind (encode_KubeConfig key_less c) (\<lambda>v. Ok (emit v))"

text \<open>
  \<^verbatim>\<open>String\<close>: \<^verbatim>\<open>buf, _ := yaml.Marshal(c)\<close>, \<^verbatim>\<open>return string(buf)\<close>. The error is dropped,
  and \<^verbatim>\<open>buf\<close> is nil when there is one. A panic of the encoder is not recovered.
\<close>

definition KubeConfig_String ::
  "(string \<Rightarrow> string \<Rightarrow> bool) \<Rightarrow> (yaml \<Rightarrow> string) \<Rightarrow> KubeConfig \<Rightarrow> string outcome" where
  "KubeConfig_String key_less emit c =
     (case yaml_Marshal key_less emit c of
        Ok buf \<Rightarrow> Ok buf
      | Err err \<Rightarrow> Ok []
      | Panic \<Rightarrow> Panic)"

section \<open>Places in a document\<close>

text \<open>
  A place in a YAML value: the keys and the indices that lead to it. \<open>at p v\<close> is the
  value at the place \<open>p\<close> of \<open>v\<close>, if \<open>v\<close> has that place.
\<close>

datatype step = Key string | Index nat

fun at :: "step list \<Rightarrow> yaml \<Rightarrow> yaml option" where
  "at [] v = Some v"
| "at (Key k # p) (YMap m) = (case fmlookup m k of None \<Rightarrow> None | Some v \<Rightarrow> at p v)"
| "at (Index i # p) (YSeq vs) = (if i < length vs then at p (vs ! i) else None)"
| "at p v = None"

text \<open>
  The places of a KUBECONFIG document that are decoded into a struct with an inline map
  \<^verbatim>\<open>O\<close>, each with the keys of the named fields of that struct: the document itself, the
  \<^verbatim>\<open>cluster\<close> of an entry of \<^verbatim>\<open>clusters\<close>, the \<^verbatim>\<open>context\<close> of an entry of \<^verbatim>\<open>contexts\<close>,
  the \<^verbatim>\<open>user\<close> of an entry of \<^verbatim>\<open>users\<close>, and the \<^verbatim>\<open>auth-provider\<close> of such a user. The
  entries themselves (\<^verbatim>\<open>NCluster\<close>, \<^verbatim>\<open>NContext\<close>, \<^verbatim>\<open>NUser\<close>) have no inline map.
\<close>

fun level_keys :: "step list \<Rightarrow> string list option" where
  "level_keys [] = Some KubeConfig_keys"
| "level_keys [Key l, Index i, Key e] =
     (if l = ''clusters'' \<and> e = ''cluster'' then Some Cluster_keys
      else if l = ''contexts'' \<and> e = ''context'' then Some Context_keys
      else if l = ''users'' \<and> e = ''user'' then Some User_keys
      else None)"
| "level_keys [Key l, Index i, Key e, Key a] =
     (if l = ''users'' \<and> e = ''user'' \<and> a = ''auth-provider'' then Some AuthProvider_keys
      else None)"
| "level_keys p = None"

text \<open>
  The places that are decoded into a struct without an inline map: the entries of the
  three lists, each with the keys of its two fields.
\<close>

fun entry_keys :: "step list \<Rightarrow> string list option" where
  "entry_keys [Key l, Index i] =
     (if l = ''clusters'' then Some NCluster_keys
      else if l = ''contexts'' then Some NContext_keys
      else if l = ''users'' then Some NUser_keys
      else None)"
| "entry_keys p = None"

text \<open>
  The name of an entry of one of the three lists, as the decoder reads it into the
  \<^verbatim>\<open>Name\<close> field: the text of the scalar under \<^verbatim>\<open>name\<close>, the empty string without that
  key. A null entry has none. \<open>entry_names k doc\<close> are the names of the entries of the
  sequence under the key \<open>k\<close>, in their order.
\<close>

fun entry_name :: "yaml \<Rightarrow> string option" where
  "entry_name (YMap m) =
     Some (case fmlookup m ''name'' of None \<Rightarrow> [] | Some v \<Rightarrow> scalar_text v)"
| "entry_name v = None"

definition entry_names :: "string \<Rightarrow> yaml \<Rightarrow> string option list" where
  "entry_names k doc =
     (case at [Key k] doc of Some (YSeq es) \<Rightarrow> map entry_name es | _ \<Rightarrow> [])"

text \<open>The named fields of an encoded KubeConfig, before the pairs of \<^verbatim>\<open>O\<close> are added.\<close>

definition top_fields ::
  "yaml list \<Rightarrow> yaml list \<Rightarrow> yaml list \<Rightarrow> string \<Rightarrow> (string, yaml) fmap" where
  "top_fields clusters contexts users current =
     omitempty_string ''current-context'' current
       (omitempty_seq ''users'' users
       (omitempty_seq ''contexts'' contexts
       (omitempty_seq ''clusters'' clusters fmempty)))"

section \<open>Sample files\<close>

text \<open>
  Six files, what the reader of \<^verbatim>\<open>yaml.v2\<close> makes of their bytes, and what its writer
  makes of the values that \<^verbatim>\<open>String\<close> encodes in the examples. As with the sample codec
  above, the functions stand for the file system and for the library in the examples
  only, and their answer on anything else says nothing about either.

  The order of keys in the examples compares byte by byte. On keys made of ASCII letters
  and hyphens, as the keys of the examples are, that is the order of \<^verbatim>\<open>keyList.Less\<close>.
\<close>

fun bytes_less :: "string \<Rightarrow> string \<Rightarrow> bool" where
  "bytes_less [] [] = False"
| "bytes_less [] (b # bs) = True"
| "bytes_less (a # as) [] = False"
| "bytes_less (a # as) (b # bs) =
     (if a = b then bytes_less as bs else (of_char a :: nat) < of_char b)"

definition current_text :: string where
  "current_text = ''current-context: prod\<newline>''"

definition current_doc :: yaml where
  "current_doc = YMap (fmupd ''current-context'' (YStr ''prod'') fmempty)"

definition order_text :: string where
  "order_text = ''clusters:\<newline>- name: b\<newline>- name: a\<newline>- name: c\<newline>''"

definition order_doc :: yaml where
  "order_doc =
     YMap (fmupd ''clusters''
       (YSeq [YMap (fmupd ''name'' (YStr ''b'') fmempty),
              YMap (fmupd ''name'' (YStr ''a'') fmempty),
              YMap (fmupd ''name'' (YStr ''c'') fmempty)]) fmempty)"

definition extra_text :: string where
  "extra_text =
     ''apiVersion: v1\<newline>'' @
     ''clusters:\<newline>'' @
     ''- name: dev\<newline>'' @
     ''  cluster:\<newline>'' @
     ''    server: https://dev\<newline>'' @
     ''    extensions: 1\<newline>'' @
     ''contexts:\<newline>'' @
     ''- name: dev\<newline>'' @
     ''  context:\<newline>'' @
     ''    cluster: dev\<newline>'' @
     ''    user: me\<newline>'' @
     ''    color: blue\<newline>'' @
     ''users:\<newline>'' @
     ''- name: me\<newline>'' @
     ''  user:\<newline>'' @
     ''    token: t\<newline>'' @
     ''    exec: kubectl\<newline>'' @
     ''    auth-provider:\<newline>'' @
     ''      name: gcp\<newline>'' @
     ''      flavor: plain\<newline>''"

definition extra_doc :: yaml where
  "extra_doc =
     YMap (fmupd ''apiVersion'' (YStr ''v1'')
       (fmupd ''clusters''
          (YSeq [YMap (fmupd ''name'' (YStr ''dev'')
                   (fmupd ''cluster''
                      (YMap (fmupd ''server'' (YStr ''https://dev'')
                         (fmupd ''extensions'' (YInt 1 ''1'') fmempty))) fmempty))])
       (fmupd ''contexts''
          (YSeq [YMap (fmupd ''name'' (YStr ''dev'')
                   (fmupd ''context''
                      (YMap (fmupd ''cluster'' (YStr ''dev'')
                         (fmupd ''user'' (YStr ''me'')
                         (fmupd ''color'' (YStr ''blue'') fmempty)))) fmempty))])
       (fmupd ''users''
          (YSeq [YMap (fmupd ''name'' (YStr ''me'')
                   (fmupd ''user''
                      (YMap (fmupd ''token'' (YStr ''t'')
                         (fmupd ''exec'' (YStr ''kubectl'')
                         (fmupd ''auth-provider''
                            (YMap (fmupd ''name'' (YStr ''gcp'')
                               (fmupd ''flavor'' (YStr ''plain'') fmempty)))
                          fmempty)))) fmempty))])
        fmempty))))"

text \<open>
  What the writer makes of the KubeConfig loaded from the file above: the fields in the
  order of the struct, then the keys of \<^verbatim>\<open>O\<close>.
\<close>

definition extra_out_text :: string where
  "extra_out_text =
     ''clusters:\<newline>'' @
     ''- name: dev\<newline>'' @
     ''  cluster:\<newline>'' @
     ''    server: https://dev\<newline>'' @
     ''    extensions: 1\<newline>'' @
     ''contexts:\<newline>'' @
     ''- name: dev\<newline>'' @
     ''  context:\<newline>'' @
     ''    cluster: dev\<newline>'' @
     ''    user: me\<newline>'' @
     ''    color: blue\<newline>'' @
     ''users:\<newline>'' @
     ''- name: me\<newline>'' @
     ''  user:\<newline>'' @
     ''    token: t\<newline>'' @
     ''    auth-provider:\<newline>'' @
     ''      name: gcp\<newline>'' @
     ''      flavor: plain\<newline>'' @
     ''    exec: kubectl\<newline>'' @
     ''apiVersion: v1\<newline>''"

text \<open>
  A file with a key of its own in an entry of \<^verbatim>\<open>clusters\<close>, beside \<^verbatim>\<open>name\<close> and
  \<^verbatim>\<open>cluster\<close>, and the value and the text that \<^verbatim>\<open>String\<close> gives after loading it.
\<close>

definition entry_text :: string where
  "entry_text =
     ''clusters:\<newline>'' @
     ''- name: dev\<newline>'' @
     ''  note: keep\<newline>'' @
     ''  cluster:\<newline>'' @
     ''    server: https://dev\<newline>''"

definition entry_doc :: yaml where
  "entry_doc =
     YMap (fmupd ''clusters''
       (YSeq [YMap (fmupd ''name'' (YStr ''dev'')
                (fmupd ''note'' (YStr ''keep'')
                (fmupd ''cluster''
                   (YMap (fmupd ''server'' (YStr ''https://dev'') fmempty)) fmempty)))])
       fmempty)"

definition entry_out :: yaml where
  "entry_out =
     YMap (fmupd ''clusters''
       (YSeq [YMap (fmupd ''name'' (YStr ''dev'')
                (fmupd ''cluster''
                   (YMap (fmupd ''server'' (YStr ''https://dev'') fmempty)) fmempty))])
       fmempty)"

definition entry_out_text :: string where
  "entry_out_text =
     ''clusters:\<newline>'' @
     ''- name: dev\<newline>'' @
     ''  cluster:\<newline>'' @
     ''    server: https://dev\<newline>''"

text \<open>The three entries of \<open>order_doc\<close> as they are written: a nil pointer is a null.\<close>

definition order_out :: yaml where
  "order_out =
     YMap (fmupd ''clusters''
       (YSeq [YMap (fmupd ''name'' (YStr ''b'') (fmupd ''cluster'' YNull fmempty)),
              YMap (fmupd ''name'' (YStr ''a'') (fmupd ''cluster'' YNull fmempty)),
              YMap (fmupd ''name'' (YStr ''c'') (fmupd ''cluster'' YNull fmempty))]) fmempty)"

definition order_out_text :: string where
  "order_out_text =
     ''clusters:\<newline>'' @
     ''- name: b\<newline>'' @
     ''  cluster: null\<newline>'' @
     ''- name: a\<newline>'' @
     ''  cluster: null\<newline>'' @
     ''- name: c\<newline>'' @
     ''  cluster: null\<newline>''"

definition sample_ReadFile :: "string \<Rightarrow> error + string" where
  "sample_ReadFile path =
     (if path = ''current.yaml'' then Inr current_text
      else if path = ''order.yaml'' then Inr order_text
      else if path = ''extra.yaml'' then Inr extra_text
      else if path = ''entry.yaml'' then Inr entry_text
      else if path = ''empty.yaml'' then Inr []
      else if path = ''null.yaml'' then Inr ''null\<newline>''
      else Inl (IOError ''no such file or directory''))"

definition sample_parse :: "string \<Rightarrow> error + yaml option" where
  "sample_parse buf =
     (if buf = [] then Inr None
      else if buf = ''null\<newline>'' then Inr (Some YNull)
      else if buf = current_text then Inr (Some current_doc)
      else if buf = order_text then Inr (Some order_doc)
      else if buf = extra_text then Inr (Some extra_doc)
      else if buf = entry_text then Inr (Some entry_doc)
      else Inl (ParseError ''not one of the sample files''))"

definition sample_emit :: "yaml \<Rightarrow> string" where
  "sample_emit v =
     (if v = YMap fmempty then ''{}\<newline>''
      else if v = current_doc then current_text
      else if v = extra_doc then extra_out_text
      else if v = entry_out then entry_out_text
      else if v = order_out then order_out_text
      else [])"

text \<open>The receivers and the results of the examples.\<close>

definition old_cluster :: KubeConfig where
  "old_cluster =
     zero_KubeConfig\<lparr>KubeConfig_Clusters :=
       [Some \<lparr>NCluster_Name = ''old'', NCluster_Cluster = None\<rparr>]\<rparr>"

definition current_loaded :: KubeConfig where
  "current_loaded = zero_KubeConfig\<lparr>KubeConfig_Current := ''prod''\<rparr>"

definition order_loaded :: KubeConfig where
  "order_loaded =
     zero_KubeConfig\<lparr>KubeConfig_Clusters :=
       [Some \<lparr>NCluster_Name = ''b'', NCluster_Cluster = None\<rparr>,
        Some \<lparr>NCluster_Name = ''a'', NCluster_Cluster = None\<rparr>,
        Some \<lparr>NCluster_Name = ''c'', NCluster_Cluster = None\<rparr>]\<rparr>"

definition extra_loaded :: KubeConfig where
  "extra_loaded =
     \<lparr>KubeConfig_Clusters =
        [Some \<lparr>NCluster_Name = ''dev'',
               NCluster_Cluster = Some (zero_Cluster
                 \<lparr>Cluster_Server := ''https://dev'',
                  Cluster_O := fmupd ''extensions'' (Generic (YInt 1 ''1'')) fmempty\<rparr>)\<rparr>],
      KubeConfig_Contexts =
        [Some \<lparr>NContext_Name = ''dev'',
               NContext_Context = Some (zero_Context
                 \<lparr>Context_Cluster := ''dev'', Context_User := ''me'',
                  Context_O := fmupd ''color'' (Generic (YStr ''blue'')) fmempty\<rparr>)\<rparr>],
      KubeConfig_Users =
        [Some \<lparr>NUser_Name = ''me'',
               NUser_User = Some (zero_User
                 \<lparr>User_Token := ''t'',
                  User_Auth := Some (zero_AuthProvider
                    \<lparr>AuthProvider_Name := ''gcp'',
                     AuthProvider_O := fmupd ''flavor'' (Generic (YStr ''plain'')) fmempty\<rparr>),
                  User_O := fmupd ''exec'' (Generic (YStr ''kubectl'')) fmempty\<rparr>)\<rparr>],
      KubeConfig_Current = [],
      KubeConfig_O = fmupd ''apiVersion'' (Generic (YStr ''v1'')) fmempty\<rparr>"

definition entry_loaded :: KubeConfig where
  "entry_loaded =
     zero_KubeConfig\<lparr>KubeConfig_Clusters :=
       [Some \<lparr>NCluster_Name = ''dev'',
              NCluster_Cluster = Some (zero_Cluster\<lparr>Cluster_Server := ''https://dev''\<rparr>)\<rparr>]\<rparr>"

text \<open>
  Values a caller can build: an \<^verbatim>\<open>O\<close> whose value has a failing \<^verbatim>\<open>MarshalYAML\<close>, and an
  \<^verbatim>\<open>O\<close> with the key of a named field.
\<close>

definition failing_config :: KubeConfig where
  "failing_config =
     zero_KubeConfig\<lparr>KubeConfig_O := fmupd ''extra'' Failing_Marshaler fmempty\<rparr>"

definition conflicting_config :: KubeConfig where
  "conflicting_config =
     zero_KubeConfig\<lparr>KubeConfig_O := fmupd ''users'' (Generic (YInt 1 ''1'')) fmempty\<rparr>"

section \<open>Properties of the redacted display\<close>

lemma of_char_nat_eq_iff: "(of_char c :: nat) = of_char d \<longleftrightarrow> c = d"
  by (metis char_of_char)

lemma appendEscapedRune_plain:
  "plain_ascii c \<Longrightarrow> appendEscapedRune tables (of_char c) = [c]"
  by (simp add: plain_ascii_def appendEscapedRune_def of_char_nat_eq_iff IsPrint_def
      AppendRune_def)

lemma quote_loop_plain:
  "list_all plain_ascii s \<Longrightarrow> quote_loop tables 0 s = s"
proof (induction s)
  case Nil
  show ?case by simp
next
  case (Cons c s)
  then have p: "plain_ascii c" and r: "quote_loop tables 0 s = s"
    by simp_all
  from p have lt: "\<not> (of_char c :: nat) \<ge> RuneSelf"
    and ne: "(of_char c :: nat) \<noteq> RuneError"
    by (simp_all add: plain_ascii_def RuneSelf_def RuneError_def)
  show ?case
    using lt ne r by (simp add: appendEscapedRune_plain [OF p])
qed

lemma String_absent_differs:
  assumes "AuthProvider_Config c = None" and "AuthProvider_Config c' \<noteq> None"
  shows "AuthProvider_String tables c \<noteq> AuthProvider_String tables' c'"
proof
  assume e: "AuthProvider_String tables c = AuthProvider_String tables' c'"
  have "rev (AuthProvider_String tables c) ! 2 = CHR ''>''"
    using assms(1) by (simp add: AuthProvider_String_def)
  moreover have "rev (AuthProvider_String tables' c') ! 2 = CHR ''-''"
    using assms(2) by (simp add: AuthProvider_String_def)
  ultimately show False
    using e by simp
qed

text \<open>
  Claim C5, as it is stated, fails: the output for \<open>quoted_provider\<close> is
  \<^verbatim>\<open>api.AuthProvider{Name: "a\"b", Config: map[string]string{--- REDACTED ---}}\<close>. The
  value \<^verbatim>\<open>api\<close> stored in \<^verbatim>\<open>Config\<close> is a substring of it, and the name \<^verbatim>\<open>a"b\<close> is
  not: \<^verbatim>\<open>%q\<close> has escaped its quote.
\<close>

theorem AuthProvider_String_counterexample:
  "sublist ''api'' (AuthProvider_String (\<lambda>r. True) quoted_provider)
   \<and> AuthProvider_Config quoted_provider = Some (fmupd ''token'' ''api'' fmempty)
   \<and> \<not> sublist (AuthProvider_Name quoted_provider)
         (AuthProvider_String (\<lambda>r. True) quoted_provider)"
  by (simp add: AuthProvider_String_def quoted_provider_def Quote_def dquote_def
      backslash_def RuneSelf_def RuneError_def appendEscapedRune_def IsPrint_def
      AppendRune_def sublist_Cons_right prefix_Cons)

text \<open>
  Claim C5, amended. For every AuthProvider the redacted display is the name in the
  quoted form of \<^verbatim>\<open>%q\<close> followed by one of two fixed tokens: \<^verbatim>\<open>--- REDACTED ---\<close> when
  \<^verbatim>\<open>Config\<close> is not nil, also when it is empty, and \<^verbatim>\<open><nil>\<close> when it is nil. A name of
  printable ASCII characters without double quote and backslash stands verbatim between
  the quotes. The output for a nil \<^verbatim>\<open>Config\<close> differs from the output for any other
  \<^verbatim>\<open>Config\<close>, whatever the names. The output does not depend on what \<^verbatim>\<open>Config\<close> and
  \<^verbatim>\<open>O\<close> hold: two providers with the same name whose \<^verbatim>\<open>Config\<close> are both nil or both
  not nil have the same output.
\<close>

theorem AuthProvider_String_redacts:
  "(AuthProvider_Config c \<noteq> None \<longrightarrow>
      AuthProvider_String tables c =
        ''api.AuthProvider{Name: '' @ Quote tables (AuthProvider_Name c)
        @ '', Config: map[string]string{--- REDACTED ---}}'')
   \<and> (AuthProvider_Config c = None \<longrightarrow>
      AuthProvider_String tables c =
        ''api.AuthProvider{Name: '' @ Quote tables (AuthProvider_Name c)
        @ '', Config: map[string]string{<nil>}}'')
   \<and> (list_all plain_ascii (AuthProvider_Name c) \<longrightarrow>
      Quote tables (AuthProvider_Name c) = [dquote] @ AuthProvider_Name c @ [dquote])
   \<and> (AuthProvider_Config c = None \<and> AuthProvider_Config c' \<noteq> None \<longrightarrow>
      AuthProvider_String tables c \<noteq> AuthProvider_String tables' c')
   \<and> (AuthProvider_Name c = AuthProvider_Name c'
       \<and> (AuthProvider_Config c = None \<longleftrightarrow> AuthProvider_Config c' = None) \<longrightarrow>
      AuthProvider_String tables c = AuthProvider_String tables c')"
proof (intro conjI impI)
  assume "AuthProvider_Config c \<noteq> None"
  then show "AuthProvider_String tables c =
        ''api.AuthProvider{Name: '' @ Quote tables (AuthProvider_Name c)
        @ '', Config: map[string]string{--- REDACTED ---}}''"
    by (simp add: AuthProvider_String_def)
next
  assume "AuthProvider_Config c = None"
  then show "AuthProvider_String tables c =
        ''api.AuthProvider{Name: '' @ Quote tables (AuthProvider_Name c)
        @ '', Config: map[string]string{<nil>}}''"
    by (simp add: AuthProvider_String_def)
next
  assume "list_all plain_ascii (AuthProvider_Name c)"
  then show "Quote tables (AuthProvider_Name c) = [dquote] @ AuthProvider_Name c @ [dquote]"
    by (simp add: Quote_def quote_loop_plain)
next
  assume "AuthProvider_Config c = None \<and> AuthProvider_Config c' \<noteq> None"
  then show "AuthProvider_String tables c \<noteq> AuthProvider_String tables' c'"
    using String_absent_differs by blast
next
  assume "AuthProvider_Name c = AuthProvider_Name c'
       \<and> (AuthProvider_Config c = None \<longleftrightarrow> AuthProvider_Config c' = None)"
  then show "AuthProvider_String tables c = AuthProvider_String tables c'"
    by (auto simp add: AuthProvider_String_def)
qed

theorem AuthProvider_String_redacts_witness:
  "AuthProvider_String (\<lambda>r. True) gcp_token
     = ''api.AuthProvider{Name: '' @ [dquote] @ ''gcp'' @ [dquote]
       @ '', Config: map[string]string{--- REDACTED ---}}''
   \<and> AuthProvider_String (\<lambda>r. True) gcp_absent
     = ''api.AuthProvider{Name: '' @ [dquote] @ ''gcp'' @ [dquote]
       @ '', Config: map[string]string{<nil>}}''
   \<and> AuthProvider_String (\<lambda>r. True) gcp_absent \<noteq> AuthProvider_String (\<lambda>r. True) gcp_empty
   \<and> AuthProvider_String (\<lambda>r. True) gcp_empty = AuthProvider_String (\<lambda>r. True) gcp_token"
proof -
  have plain: "list_all plain_ascii ''gcp''"
    by (simp add: plain_ascii_def dquote_def backslash_def)
  have names: "AuthProvider_Name gcp_token = ''gcp''" "AuthProvider_Name gcp_absent = ''gcp''"
    "AuthProvider_Name gcp_empty = ''gcp''"
    by (simp_all add: gcp_token_def gcp_absent_def gcp_empty_def)
  have configs: "AuthProvider_Config gcp_token \<noteq> None" "AuthProvider_Config gcp_absent = None"
    "AuthProvider_Config gcp_empty \<noteq> None"
    by (simp_all add: gcp_token_def gcp_absent_def gcp_empty_def)
  note token = AuthProvider_String_redacts [where c = gcp_token and tables = "\<lambda>r. True"]
  note absent = AuthProvider_String_redacts [where c = gcp_absent and c' = gcp_empty
      and tables = "\<lambda>r. True" and tables' = "\<lambda>r. True"]
  note empty = AuthProvider_String_redacts [where c = gcp_empty and c' = gcp_token
      and tables = "\<lambda>r. True"]
  have q: "Quote (\<lambda>r. True) ''gcp'' = [dquote] @ ''gcp'' @ [dquote]"
    using token plain names by metis
  have a: "AuthProvider_String (\<lambda>r. True) gcp_token
     = ''api.AuthProvider{Name: '' @ Quote (\<lambda>r. True) ''gcp''
       @ '', Config: map[string]string{--- REDACTED ---}}''"
    using token configs(1) names(1) by metis
  have b: "AuthProvider_String (\<lambda>r. True) gcp_absent
     = ''api.AuthProvider{Name: '' @ Quote (\<lambda>r. True) ''gcp''
       @ '', Config: map[string]string{<nil>}}''"
    using absent configs(2) names(2) by metis
  have c: "AuthProvider_String (\<lambda>r. True) gcp_absent
      \<noteq> AuthProvider_String (\<lambda>r. True) gcp_empty"
    using absent configs(2,3) by blast
  have d: "AuthProvider_String (\<lambda>r. True) gcp_empty
      = AuthProvider_String (\<lambda>r. True) gcp_token"
    using empty configs(1,3) names(1,3) by metis
  show ?thesis
  proof (intro conjI)
    show "AuthProvider_String (\<lambda>r. True) gcp_token
       = ''api.AuthProvider{Name: '' @ [dquote] @ ''gcp'' @ [dquote]
         @ '', Config: map[string]string{--- REDACTED ---}}''"
      using a q by simp
    show "AuthProvider_String (\<lambda>r. True) gcp_absent
       = ''api.AuthProvider{Name: '' @ [dquote] @ ''gcp'' @ [dquote]
         @ '', Config: map[string]string{<nil>}}''"
      using b q by simp
    show "AuthProvider_String (\<lambda>r. True) gcp_absent
        \<noteq> AuthProvider_String (\<lambda>r. True) gcp_empty"
      by (rule c)
    show "AuthProvider_String (\<lambda>r. True) gcp_empty
        = AuthProvider_String (\<lambda>r. True) gcp_token"
      by (rule d)
  qed
qed

text \<open>
  Claim C10. \<^verbatim>\<open>GoString\<close> returns the string \<^verbatim>\<open>String\<close> returns, for every AuthProvider:
  the formats \<^verbatim>\<open>%#v\<close> and \<^verbatim>\<open>%v\<close> show the same redacted text.
\<close>

theorem AuthProvider_GoString_is_String:
  "AuthProvider_GoString tables c = AuthProvider_String tables c"
  by (simp add: AuthProvider_GoString_def)

section \<open>Properties of NormYAML\<close>

text \<open>
  Claim C1. When the input decodes and the encoding of the decoded value is exactly the
  empty mapping \<^verbatim>\<open>{}\<close> followed by one newline, \<^verbatim>\<open>NormYAML\<close> succeeds and returns no
  bytes at all. With \<^verbatim>\<open>sigs.k8s.io/yaml\<close> the inputs \<^verbatim>\<open>{}\<close> and \<^verbatim>\<open>{}\<close> with a newline are
  such inputs.
\<close>

theorem NormYAML_empty_collapse:
  assumes "Unmarshal y = Inr v" and "Marshal v = Inr ''{}\<newline>''"
  shows "NormYAML Unmarshal Marshal y = Inr []"
  using assms by (simp add: NormYAML_def)

theorem NormYAML_empty_collapse_witness:
  "NormYAML sample_Unmarshal sample_Marshal ''{}'' = Inr []
   \<and> NormYAML sample_Unmarshal sample_Marshal ''{}\<newline>'' = Inr []"
proof -
  have u1: "sample_Unmarshal ''{}'' = Inr (YMap fmempty)"
    by (simp add: sample_Unmarshal_def)
  have u2: "sample_Unmarshal ''{}\<newline>'' = Inr (YMap fmempty)"
    by (simp add: sample_Unmarshal_def)
  have m: "sample_Marshal (YMap fmempty) = Inr ''{}\<newline>''"
    by (simp add: sample_Marshal_def)
  show ?thesis
    using NormYAML_empty_collapse [where Unmarshal = sample_Unmarshal
        and Marshal = sample_Marshal, OF u1 m]
      NormYAML_empty_collapse [where Unmarshal = sample_Unmarshal
        and Marshal = sample_Marshal, OF u2 m]
    by simp
qed




text \<open>
  Claim C3, as it is stated, fails in both directions of its equivalence, at documents
  that are valid YAML. The double-quoted scalar \<open>del_text\<close> is decoded, and \<^verbatim>\<open>NormYAML\<close>
  returns an error all the same: the error of \<^verbatim>\<open>Marshal\<close>, which is the second error
  return of the function. The float \<^verbatim>\<open>.nan\<close> is refused by \<^verbatim>\<open>Unmarshal\<close>, and \<^verbatim>\<open>NormYAML\<close>
  returns that error.
\<close>

theorem NormYAML_errors_counterexample:
  "sample_Unmarshal del_text = Inr (YStr [CHR 0x7F])
   \<and> NormYAML sample_Unmarshal sample_Marshal del_text
       = Inl (MarshalError ''yaml: control characters are not allowed'')
   \<and> NormYAML sample_Unmarshal sample_Marshal ''.nan''
       = Inl (ParseError ''error converting YAML to JSON: json: unsupported value: NaN'')"
  by code_simp

text \<open>
  Claim C3, amended. \<^verbatim>\<open>NormYAML\<close> returns an error exactly when decoding the input
  fails or encoding the decoded value fails, and the error it returns is the one the
  library returned, unchanged; it returns bytes exactly when both steps succeed.
\<close>

theorem NormYAML_errors:
  "(NormYAML Unmarshal Marshal y = Inl err \<longleftrightarrow>
      Unmarshal y = Inl err \<or> (\<exists>v. Unmarshal y = Inr v \<and> Marshal v = Inl err))
   \<and> ((\<exists>out. NormYAML Unmarshal Marshal y = Inr out) \<longleftrightarrow>
      (\<exists>v encoded. Unmarshal y = Inr v \<and> Marshal v = Inr encoded))"
  by (auto simp add: NormYAML_def split: sum.splits)

section \<open>Decoding and encoding: general facts\<close>

lemma sum_bind_Inr_iff: "sum_bind r f = Inr y \<longleftrightarrow> (\<exists>x. r = Inr x \<and> f x = Inr y)"
  by (cases r) (simp_all add: sum_bind_def)

lemma outcome_bind_Ok_iff: "outcome_bind r f = Ok y \<longleftrightarrow> (\<exists>x. r = Ok x \<and> f x = Ok y)"
  by (cases r) (simp_all add: outcome_bind_def)

lemma type_error_not_Inr [simp]: "type_error \<noteq> Inr x"
  by (simp add: type_error_def)

lemma decode_list_all2:
  "decode_list dec vs = Inr xs \<Longrightarrow> list_all2 (\<lambda>v x. dec v = Inr x) vs xs"
  by (induction vs arbitrary: xs) (auto simp add: sum_bind_Inr_iff)

lemma encode_list_all2:
  "encode_list enc xs = Ok ts \<Longrightarrow> list_all2 (\<lambda>x t. enc x = Ok t) xs ts"
  by (induction xs arbitrary: ts) (auto simp add: outcome_bind_Ok_iff)

lemma stops_at_inline_O: "stops_at keys (inline_O keys m) = {||}"
  by (auto simp add: stops_at_def inline_O_def fmlookup_dom_iff split: if_splits)

lemma stops_at_empty: "stops_at keys fmempty = {||}"
  by (auto simp add: stops_at_def)

lemma yaml_of_inline_O:
  "fmmap yaml_of (inline_O keys m) = fmfilter (\<lambda>k. k \<notin> set keys) (fmmap resolved m)"
  by (rule fmap_ext) (auto simp add: inline_O_def option.map_comp comp_def)

lemma encode_inline_decoded:
  "encode_inline key_less keys (inline_O keys m) named
     = Ok (YMap (named ++\<^sub>f fmfilter (\<lambda>k. k \<notin> set keys) (fmmap resolved m)))"
  by (simp add: encode_inline_def stops_at_inline_O yaml_of_inline_O)

lemma encode_inline_empty: "encode_inline key_less keys fmempty named = Ok (YMap named)"
  by (simp add: encode_inline_def stops_at_empty)

text \<open>
  With a failing value and the key of a field in the same inline map, the key that comes
  first decides.
\<close>

lemma encode_inline_first_key:
  "encode_inline bytes_less KubeConfig_keys
     (fmupd ''a'' Failing_Marshaler (fmupd ''users'' (Generic YNull) fmempty)) fmempty
     = Err (MarshalError ''MarshalYAML'')"
  "encode_inline bytes_less KubeConfig_keys
     (fmupd ''zz'' Failing_Marshaler (fmupd ''users'' (Generic YNull) fmempty)) fmempty
     = Panic"
  by code_simp+

section \<open>Unknown keys, struct by struct\<close>

lemma at_Key_YMap: "at (Key k # p) v = Some w \<longleftrightarrow> (\<exists>m x. v = YMap m \<and> fmlookup m k = Some x \<and> at p x = Some w)"
  by (cases v) (auto split: option.splits)

lemma at_Index_YSeq: "at (Index i # p) v = Some w \<longleftrightarrow> (\<exists>vs. v = YSeq vs \<and> i < length vs \<and> at p (vs ! i) = Some w)"
  by (cases v) (auto split: option.splits)

lemma lookup_add_filter:
  "fmlookup m k = Some v \<Longrightarrow> k \<notin> set keys \<Longrightarrow>
   fmlookup (named ++\<^sub>f fmfilter (\<lambda>k. k \<notin> set keys) (fmmap resolved m)) k
     = Some (resolved v)"
  by (simp add: fmlookup_add fmlookup_dom_iff)

lemma lookup_add_filter_named:
  "k \<in> set keys \<Longrightarrow>
   fmlookup (named ++\<^sub>f fmfilter (\<lambda>k. k \<notin> set keys) (fmmap resolved m)) k = fmlookup named k"
  by (simp add: fmlookup_add fmlookup_dom_iff)

lemma at_Key_inline:
  "fmlookup m k = Some v \<Longrightarrow> k \<notin> set keys \<Longrightarrow>
   at [Key k] (YMap (named ++\<^sub>f fmfilter (\<lambda>k. k \<notin> set keys) (fmmap resolved m)))
     = Some (resolved v)"
  using lookup_add_filter [of m k v keys named] by (simp del: fmlookup_add)

lemma at_Key_named:
  "k \<in> set keys \<Longrightarrow>
   at (Key k # p) (YMap (named ++\<^sub>f fmfilter (\<lambda>k. k \<notin> set keys) (fmmap resolved m))) = at (Key k # p) (YMap named)"
  using lookup_add_filter_named [of k keys named m] by (simp del: fmlookup_add)

lemma decode_AuthProvider_O:
  "decode_AuthProvider (YMap m) old = Inr a \<Longrightarrow> AuthProvider_O a = inline_O AuthProvider_keys m"
  by (auto simp add: sum_bind_Inr_iff)

lemma decode_Cluster_O:
  "decode_Cluster (YMap m) old = Inr a \<Longrightarrow> Cluster_O a = inline_O Cluster_keys m"
  by (auto simp add: sum_bind_Inr_iff)

lemma decode_Context_O:
  "decode_Context (YMap m) old = Inr a \<Longrightarrow> Context_O a = inline_O Context_keys m"
  by (auto simp add: sum_bind_Inr_iff)

lemma decode_User_O:
  "decode_User (YMap m) old = Inr a \<Longrightarrow> User_O a = inline_O User_keys m"
  by (auto simp add: sum_bind_Inr_iff)

lemma decode_KubeConfig_O:
  "decode_KubeConfig (YMap m) old = Inr a \<Longrightarrow> KubeConfig_O a = inline_O KubeConfig_keys m"
  by (auto simp add: sum_bind_Inr_iff)

lemma AuthProvider_unknown:
  assumes "decode_AuthProvider (YMap m) old = Inr a"
    and "fmlookup m k = Some v" and "k \<notin> set AuthProvider_keys"
  shows "\<exists>t. encode_AuthProvider key_less a = Ok t \<and> at [Key k] t = Some (resolved v)"
  using at_Key_inline [OF assms(2,3)]
  by (simp only: encode_AuthProvider_def decode_AuthProvider_O [OF assms(1)] encode_inline_decoded) blast

lemma AuthProvider_encodable:
  assumes "decode_AuthProvider v old = Inr a"
  shows "\<exists>t. encode_AuthProvider key_less a = Ok t"
proof (cases v)
  case YNull
  with assms have "a = zero_AuthProvider"
    by simp
  then show ?thesis
    by (simp add: encode_AuthProvider_def zero_AuthProvider_def encode_inline_empty)
next
  case (YMap m)
  with assms show ?thesis
    by (simp only: encode_AuthProvider_def decode_AuthProvider_O encode_inline_decoded) blast
qed (use assms in simp_all)

lemma Cluster_unknown:
  assumes "decode_Cluster (YMap m) old = Inr a"
    and "fmlookup m k = Some v" and "k \<notin> set Cluster_keys"
  shows "\<exists>t. encode_Cluster key_less a = Ok t \<and> at [Key k] t = Some (resolved v)"
  using at_Key_inline [OF assms(2,3)]
  by (simp only: encode_Cluster_def decode_Cluster_O [OF assms(1)] encode_inline_decoded) blast

lemma Cluster_encodable:
  assumes "decode_Cluster v old = Inr a"
  shows "\<exists>t. encode_Cluster key_less a = Ok t"
proof (cases v)
  case YNull
  with assms have "a = zero_Cluster"
    by simp
  then show ?thesis
    by (simp add: encode_Cluster_def zero_Cluster_def encode_inline_empty)
next
  case (YMap m)
  with assms show ?thesis
    by (simp only: encode_Cluster_def decode_Cluster_O encode_inline_decoded) blast
qed (use assms in simp_all)

lemma Context_unknown:
  assumes "decode_Context (YMap m) old = Inr a"
    and "fmlookup m k = Some v" and "k \<notin> set Context_keys"
  shows "\<exists>t. encode_Context key_less a = Ok t \<and> at [Key k] t = Some (resolved v)"
  using at_Key_inline [OF assms(2,3)]
  by (simp only: encode_Context_def decode_Context_O [OF assms(1)] encode_inline_decoded) blast

lemma Context_encodable:
  assumes "decode_Context v old = Inr a"
  shows "\<exists>t. encode_Context key_less a = Ok t"
proof (cases v)
  case YNull
  with assms have "a = zero_Context"
    by simp
  then show ?thesis
    by (simp add: encode_Context_def zero_Context_def encode_inline_empty)
next
  case (YMap m)
  with assms show ?thesis
    by (simp only: encode_Context_def decode_Context_O encode_inline_decoded) blast
qed (use assms in simp_all)

lemma decode_ptr_cases:
  assumes "decode_ptr dec zero v old = Inr p"
  shows "(v = YNull \<and> p = None)
       \<or> (v \<noteq> YNull \<and> (\<exists>s. p = Some s \<and> dec v (case old of None \<Rightarrow> zero | Some held \<Rightarrow> held) = Inr s))"
  using assms by (auto simp add: decode_ptr_def sum_bind_Inr_iff split: if_splits)

lemma decode_User_Auth:
  "decode_User (YMap m) old = Inr u \<Longrightarrow>
   decode_field m ''auth-provider'' (decode_ptr decode_AuthProvider zero_AuthProvider) (User_Auth old)
     = Inr (User_Auth u)"
  by (auto simp add: sum_bind_Inr_iff)

lemma User_Auth_encodable:
  assumes "decode_User (YMap m) old = Inr u" and "User_Auth old = None"
  shows "\<exists>auth. (case User_Auth u of None \<Rightarrow> Ok None
                 | Some a \<Rightarrow> outcome_bind (encode_AuthProvider key_less a) (\<lambda>v. Ok (Some v))) = Ok auth"
proof (cases "fmlookup m ''auth-provider''")
  case None
  with decode_User_Auth [OF assms(1)] assms(2) have "User_Auth u = None"
    by (simp add: decode_field_def)
  then show ?thesis by simp
next
  case (Some v)
  with decode_User_Auth [OF assms(1)]
  have "decode_ptr decode_AuthProvider zero_AuthProvider v (User_Auth old) = Inr (User_Auth u)"
    by (simp add: decode_field_def)
  from decode_ptr_cases [OF this] show ?thesis
    using AuthProvider_encodable by (fastforce simp add: outcome_bind_Ok_iff)
qed

lemma encode_User_decoded:
  assumes "decode_User (YMap m) old = Inr u" and "User_Auth old = None"
  shows "\<exists>named. encode_User key_less u = Ok (YMap (named ++\<^sub>f fmfilter (\<lambda>k. k \<notin> set User_keys) (fmmap resolved m)))"
proof -
  from User_Auth_encodable [OF assms] obtain auth where
    "(case User_Auth u of None \<Rightarrow> Ok None
       | Some a \<Rightarrow> outcome_bind (encode_AuthProvider key_less a) (\<lambda>v. Ok (Some v))) = Ok auth" ..
  then have "\<exists>named. encode_User key_less u = encode_inline key_less User_keys (User_O u) named"
    by (simp add: encode_User_def outcome_bind_def) (rule exI, rule refl)
  then show ?thesis
    by (simp only: decode_User_O [OF assms(1)] encode_inline_decoded)
qed

lemma User_unknown:
  assumes "decode_User (YMap m) old = Inr u" and "User_Auth old = None"
    and "fmlookup m k = Some v" and "k \<notin> set User_keys"
  shows "\<exists>t. encode_User key_less u = Ok t \<and> at [Key k] t = Some (resolved v)"
  using encode_User_decoded [OF assms(1,2)] at_Key_inline [OF assms(3,4)] by metis

lemma User_encodable:
  assumes "decode_User v old = Inr u" and "User_Auth old = None"
  shows "\<exists>t. encode_User key_less u = Ok t"
proof (cases v)
  case YNull
  with assms have "u = zero_User"
    by simp
  then show ?thesis
    by (simp add: encode_User_def zero_User_def encode_inline_empty outcome_bind_def)
next
  case (YMap m)
  with assms encode_User_decoded show ?thesis
    by blast
qed (use assms in simp_all)

lemma User_auth_unknown:
  assumes "decode_User (YMap m) old = Inr u" and "User_Auth old = None"
    and "fmlookup m ''auth-provider'' = Some (YMap am)"
    and "fmlookup am k = Some v" and "k \<notin> set AuthProvider_keys"
  shows "\<exists>t. encode_User key_less u = Ok t \<and> at [Key ''auth-provider'', Key k] t = Some (resolved v)"
proof -
  from decode_User_Auth [OF assms(1)] assms(3)
  have "decode_ptr decode_AuthProvider zero_AuthProvider (YMap am) (User_Auth old) = Inr (User_Auth u)"
    by (simp add: decode_field_def)
  from decode_ptr_cases [OF this] assms(2) obtain a where a: "User_Auth u = Some a"
    and d: "decode_AuthProvider (YMap am) zero_AuthProvider = Inr a"
    by auto
  from AuthProvider_unknown [OF d assms(4,5)] obtain ta
    where ta: "encode_AuthProvider key_less a = Ok ta" and at: "at [Key k] ta = Some (resolved v)"
    by blast
  have key: "''auth-provider'' \<in> set User_keys"
    by (simp add: User_keys_def)
  have "encode_User key_less u = Ok (YMap (
       (omitempty_ptr ''auth-provider'' (Some ta)
       (omitempty_string ''password'' (User_Pass u)
       (omitempty_string ''username'' (User_Name u)
       (omitempty_seq ''act-as-groups'' (map YStr (User_AsGroups u))
       (omitempty_string ''act-as-uid'' (User_AsUID u)
       (omitempty_string ''act-as'' (User_As u)
       (omitempty_string ''token'' (User_Token u)
       (omitempty_string ''client-key-data'' (User_Key u)
       (omitempty_string ''client-certificate-data'' (User_Cert u) fmempty)))))))))
       ++\<^sub>f fmfilter (\<lambda>k. k \<notin> set User_keys) (fmmap resolved m)))" (is "_ = Ok (YMap (?named ++\<^sub>f _))")
    by (simp add: encode_User_def a ta outcome_bind_def decode_User_O [OF assms(1)] encode_inline_decoded)
  moreover have "at [Key ''auth-provider'', Key k] (YMap (?named ++\<^sub>f fmfilter (\<lambda>k. k \<notin> set User_keys) (fmmap resolved m)))
      = at [Key ''auth-provider'', Key k] (YMap ?named)"
    by (rule at_Key_named [OF key])
  moreover have "at [Key ''auth-provider'', Key k] (YMap ?named) = at [Key k] ta"
    by (simp add: omitempty_ptr_def)
  ultimately show ?thesis
    using at by simp
qed

section \<open>The entries of the three lists\<close>

lemma decode_name:
  "decode_field m ''name'' decode_string [] = Inr name \<Longrightarrow>
   name = (case fmlookup m ''name'' of None \<Rightarrow> [] | Some v \<Rightarrow> scalar_text v)"
  by (auto simp add: decode_field_def decode_string_def split: option.splits if_splits)

lemma decode_NCluster_YMap:
  assumes "decode_NCluster e zero_NCluster = Inr x" and "e \<noteq> YNull"
  obtains m cl where "e = YMap m"
    and "x = \<lparr>NCluster_Name = (case fmlookup m ''name'' of None \<Rightarrow> [] | Some v \<Rightarrow> scalar_text v),
              NCluster_Cluster = cl\<rparr>"
    and "decode_field m ''cluster'' (decode_ptr decode_Cluster zero_Cluster) None = Inr cl"
  using assms
  by (cases e) (auto simp add: sum_bind_Inr_iff zero_NCluster_def dest!: decode_name)

lemma decode_NContext_YMap:
  assumes "decode_NContext e zero_NContext = Inr x" and "e \<noteq> YNull"
  obtains m cl where "e = YMap m"
    and "x = \<lparr>NContext_Name = (case fmlookup m ''name'' of None \<Rightarrow> [] | Some v \<Rightarrow> scalar_text v),
              NContext_Context = cl\<rparr>"
    and "decode_field m ''context'' (decode_ptr decode_Context zero_Context) None = Inr cl"
  using assms
  by (cases e) (auto simp add: sum_bind_Inr_iff zero_NContext_def dest!: decode_name)

lemma decode_NUser_YMap:
  assumes "decode_NUser e zero_NUser = Inr x" and "e \<noteq> YNull"
  obtains m cl where "e = YMap m"
    and "x = \<lparr>NUser_Name = (case fmlookup m ''name'' of None \<Rightarrow> [] | Some v \<Rightarrow> scalar_text v),
              NUser_User = cl\<rparr>"
    and "decode_field m ''user'' (decode_ptr decode_User zero_User) None = Inr cl"
  using assms
  by (cases e) (auto simp add: sum_bind_Inr_iff zero_NUser_def dest!: decode_name)

lemma decode_field_ptr_cases:
  assumes "decode_field m k (decode_ptr dec zero) None = Inr p"
  shows "p = None \<and> (fmlookup m k = None \<or> fmlookup m k = Some YNull)
       \<or> (\<exists>v s. fmlookup m k = Some v \<and> v \<noteq> YNull \<and> p = Some s \<and> dec v zero = Inr s)"
proof (cases "fmlookup m k")
  case None
  with assms show ?thesis by (simp add: decode_field_def)
next
  case (Some v)
  with assms have "decode_ptr dec zero v None = Inr p"
    by (simp add: decode_field_def)
  from decode_ptr_cases [OF this] Some show ?thesis
    by auto
qed

lemma inner_encodable:
  assumes "decode_field m k (decode_ptr dec zero) None = Inr p"
    and "\<And>v s. dec v zero = Inr s \<Longrightarrow> \<exists>t. enc s = Ok t"
  shows "\<exists>t. encode_ptr enc p = Ok t"
  using decode_field_ptr_cases [OF assms(1)] assms(2)
  by (auto simp add: encode_ptr_def)

lemma inner_at:
  assumes "decode_field m k (decode_ptr dec zero) None = Inr p"
    and "fmlookup m k = Some (YMap im)"
    and "\<And>s. dec (YMap im) zero = Inr s \<Longrightarrow> \<exists>t. enc s = Ok t \<and> at q t = Some w"
  shows "\<exists>t. encode_ptr enc p = Ok t \<and> at q t = Some w"
  using decode_field_ptr_cases [OF assms(1)] assms(2,3)
  by (auto simp add: encode_ptr_def)

lemma zero_User_Auth: "User_Auth zero_User = None"
  by (simp add: zero_User_def)

lemma NCluster_entry:
  assumes "decode_ptr decode_NCluster zero_NCluster e None = Inr n"
  shows "\<exists>t. encode_ptr (encode_NCluster key_less) n = Ok t \<and> entry_name t = entry_name e"
  using decode_ptr_cases [OF assms]
proof (elim disjE conjE exE)
  assume "e = YNull" "n = None"
  then show ?thesis by (simp add: encode_ptr_def)
next
  fix x assume ne: "e \<noteq> YNull" and n: "n = Some x"
    and "decode_NCluster e (case None of None \<Rightarrow> zero_NCluster | Some held \<Rightarrow> held) = Inr x"
  then have d: "decode_NCluster e zero_NCluster = Inr x" by simp
  from d ne obtain m cl where e: "e = YMap m"
    and x: "x = \<lparr>NCluster_Name = (case fmlookup m ''name'' of None \<Rightarrow> [] | Some v \<Rightarrow> scalar_text v),
              NCluster_Cluster = cl\<rparr>"
    and cl: "decode_field m ''cluster'' (decode_ptr decode_Cluster zero_Cluster) None = Inr cl"
    by (rule decode_NCluster_YMap)
  from inner_encodable [OF cl] Cluster_encodable obtain t where "encode_ptr (encode_Cluster key_less) cl = Ok t"
    by blast
  then show ?thesis
    by (simp add: n e x encode_ptr_def encode_NCluster_def outcome_bind_def)
qed

lemma NContext_entry:
  assumes "decode_ptr decode_NContext zero_NContext e None = Inr n"
  shows "\<exists>t. encode_ptr (encode_NContext key_less) n = Ok t \<and> entry_name t = entry_name e"
  using decode_ptr_cases [OF assms]
proof (elim disjE conjE exE)
  assume "e = YNull" "n = None"
  then show ?thesis by (simp add: encode_ptr_def)
next
  fix x assume ne: "e \<noteq> YNull" and n: "n = Some x"
    and "decode_NContext e (case None of None \<Rightarrow> zero_NContext | Some held \<Rightarrow> held) = Inr x"
  then have d: "decode_NContext e zero_NContext = Inr x" by simp
  from d ne obtain m cl where e: "e = YMap m"
    and x: "x = \<lparr>NContext_Name = (case fmlookup m ''name'' of None \<Rightarrow> [] | Some v \<Rightarrow> scalar_text v),
              NContext_Context = cl\<rparr>"
    and cl: "decode_field m ''context'' (decode_ptr decode_Context zero_Context) None = Inr cl"
    by (rule decode_NContext_YMap)
  from inner_encodable [OF cl] Context_encodable obtain t where "encode_ptr (encode_Context key_less) cl = Ok t"
    by blast
  then show ?thesis
    by (simp add: n e x encode_ptr_def encode_NContext_def outcome_bind_def)
qed

lemma NUser_entry:
  assumes "decode_ptr decode_NUser zero_NUser e None = Inr n"
  shows "\<exists>t. encode_ptr (encode_NUser key_less) n = Ok t \<and> entry_name t = entry_name e"
  using decode_ptr_cases [OF assms]
proof (elim disjE conjE exE)
  assume "e = YNull" "n = None"
  then show ?thesis by (simp add: encode_ptr_def)
next
  fix x assume ne: "e \<noteq> YNull" and n: "n = Some x"
    and "decode_NUser e (case None of None \<Rightarrow> zero_NUser | Some held \<Rightarrow> held) = Inr x"
  then have d: "decode_NUser e zero_NUser = Inr x" by simp
  from d ne obtain m cl where e: "e = YMap m"
    and x: "x = \<lparr>NUser_Name = (case fmlookup m ''name'' of None \<Rightarrow> [] | Some v \<Rightarrow> scalar_text v),
              NUser_User = cl\<rparr>"
    and cl: "decode_field m ''user'' (decode_ptr decode_User zero_User) None = Inr cl"
    by (rule decode_NUser_YMap)
  from inner_encodable [OF cl] User_encodable zero_User_Auth obtain t where "encode_ptr (encode_User key_less) cl = Ok t"
    by blast
  then show ?thesis
    by (simp add: n e x encode_ptr_def encode_NUser_def outcome_bind_def)
qed

lemma NCluster_inner:
  assumes "decode_ptr decode_NCluster zero_NCluster e None = Inr n"
    and "at [Key ''cluster''] e = Some (YMap im)"
    and "\<And>s. decode_Cluster (YMap im) zero_Cluster = Inr s \<Longrightarrow> \<exists>t. encode_Cluster key_less s = Ok t \<and> at q t = Some w"
  shows "\<exists>t. encode_ptr (encode_NCluster key_less) n = Ok t \<and> at (Key ''cluster'' # q) t = Some w"
proof -
  from assms(2) obtain m where e: "e = YMap m" and l: "fmlookup m ''cluster'' = Some (YMap im)"
    by (auto simp add: at_Key_YMap)
  with decode_ptr_cases [OF assms(1)] obtain x where n: "n = Some x"
    and d: "decode_NCluster (YMap m) zero_NCluster = Inr x"
    by auto
  from d obtain cl where cl: "decode_field m ''cluster'' (decode_ptr decode_Cluster zero_Cluster) None = Inr cl"
    and x: "NCluster_Cluster x = cl"
    by (auto simp add: sum_bind_Inr_iff zero_NCluster_def)
  have "\<exists>t. encode_ptr (encode_Cluster key_less) cl = Ok t \<and> at q t = Some w"
    using cl l by (rule inner_at) (rule assms(3))
  then obtain t where "encode_ptr (encode_Cluster key_less) cl = Ok t" "at q t = Some w"
    by blast
  then show ?thesis
    by (simp add: n e x encode_ptr_def encode_NCluster_def outcome_bind_def)
qed

lemma NContext_inner:
  assumes "decode_ptr decode_NContext zero_NContext e None = Inr n"
    and "at [Key ''context''] e = Some (YMap im)"
    and "\<And>s. decode_Context (YMap im) zero_Context = Inr s \<Longrightarrow> \<exists>t. encode_Context key_less s = Ok t \<and> at q t = Some w"
  shows "\<exists>t. encode_ptr (encode_NContext key_less) n = Ok t \<and> at (Key ''context'' # q) t = Some w"
proof -
  from assms(2) obtain m where e: "e = YMap m" and l: "fmlookup m ''context'' = Some (YMap im)"
    by (auto simp add: at_Key_YMap)
  with decode_ptr_cases [OF assms(1)] obtain x where n: "n = Some x"
    and d: "decode_NContext (YMap m) zero_NContext = Inr x"
    by auto
  from d obtain cl where cl: "decode_field m ''context'' (decode_ptr decode_Context zero_Context) None = Inr cl"
    and x: "NContext_Context x = cl"
    by (auto simp add: sum_bind_Inr_iff zero_NContext_def)
  have "\<exists>t. encode_ptr (encode_Context key_less) cl = Ok t \<and> at q t = Some w"
    using cl l by (rule inner_at) (rule assms(3))
  then obtain t where "encode_ptr (encode_Context key_less) cl = Ok t" "at q t = Some w"
    by blast
  then show ?thesis
    by (simp add: n e x encode_ptr_def encode_NContext_def outcome_bind_def)
qed

lemma NUser_inner:
  assumes "decode_ptr decode_NUser zero_NUser e None = Inr n"
    and "at [Key ''user''] e = Some (YMap im)"
    and "\<And>s. decode_User (YMap im) zero_User = Inr s \<Longrightarrow> \<exists>t. encode_User key_less s = Ok t \<and> at q t = Some w"
  shows "\<exists>t. encode_ptr (encode_NUser key_less) n = Ok t \<and> at (Key ''user'' # q) t = Some w"
proof -
  from assms(2) obtain m where e: "e = YMap m" and l: "fmlookup m ''user'' = Some (YMap im)"
    by (auto simp add: at_Key_YMap)
  with decode_ptr_cases [OF assms(1)] obtain x where n: "n = Some x"
    and d: "decode_NUser (YMap m) zero_NUser = Inr x"
    by auto
  from d obtain cl where cl: "decode_field m ''user'' (decode_ptr decode_User zero_User) None = Inr cl"
    and x: "NUser_User x = cl"
    by (auto simp add: sum_bind_Inr_iff zero_NUser_def)
  have "\<exists>t. encode_ptr (encode_User key_less) cl = Ok t \<and> at q t = Some w"
    using cl l by (rule inner_at) (rule assms(3))
  then obtain t where "encode_ptr (encode_User key_less) cl = Ok t" "at q t = Some w"
    by blast
  then show ?thesis
    by (simp add: n e x encode_ptr_def encode_NUser_def outcome_bind_def)
qed

lemma list_entries:
  assumes "decode_list dec es = Inr ns"
    and "\<And>e n. dec e = Inr n \<Longrightarrow> \<exists>t. enc n = Ok t \<and> R e t"
  shows "\<exists>ts. encode_list enc ns = Ok ts \<and> list_all2 R es ts"
  using assms(1)
proof (induction es arbitrary: ns)
  case Nil
  then show ?case by simp
next
  case (Cons e es)
  from Cons.prems obtain n ns' where n: "dec e = Inr n" and ns': "decode_list dec es = Inr ns'"
    and ns: "ns = n # ns'"
    by (auto simp add: sum_bind_Inr_iff)
  from assms(2) [OF n] obtain t where t: "enc n = Ok t" "R e t"
    by blast
  from Cons.IH [OF ns'] obtain ts where "encode_list enc ns' = Ok ts" "list_all2 R es ts"
    by blast
  with t ns show ?case
    by (simp add: outcome_bind_def)
qed

lemma list_at:
  assumes "decode_list dec es = Inr ns"
    and "\<And>e n. dec e = Inr n \<Longrightarrow> \<exists>t. enc n = Ok t"
    and "i < length es"
    and "\<And>n. dec (es ! i) = Inr n \<Longrightarrow> \<exists>t. enc n = Ok t \<and> at q t = r"
  shows "\<exists>ts. encode_list enc ns = Ok ts \<and> at (Index i # q) (YSeq ts) = r"
proof -
  have "\<exists>ts. encode_list enc ns = Ok ts \<and> list_all2 (\<lambda>e t. True) es ts"
    using assms(1) by (rule list_entries) (use assms(2) in blast)
  then obtain ts where ts: "encode_list enc ns = Ok ts" and len: "length ts = length es"
    by (auto simp add: list_all2_conv_all_nth)
  from decode_list_all2 [OF assms(1)] assms(3) have n: "dec (es ! i) = Inr (ns ! i)"
    and len': "length ns = length es"
    by (auto simp add: list_all2_conv_all_nth)
  from encode_list_all2 [OF ts] assms(3) len' have "enc (ns ! i) = Ok (ts ! i)"
    by (auto simp add: list_all2_conv_all_nth)
  with assms(4) [OF n] have "at q (ts ! i) = r"
    by auto
  with ts len assms(3) show ?thesis
    by simp
qed

lemma decode_slice_cases:
  assumes "decode_slice dec v old = Inr ns"
  shows "(v = YNull \<and> ns = []) \<or> (\<exists>es. v = YSeq es \<and> decode_list dec es = Inr ns)"
  using assms by (cases v) auto

lemma field_slice_encodable:
  assumes "decode_field m k (decode_slice dec) old = Inr ns"
    and "encode_list enc old = Ok t0"
    and "\<And>e n. dec e = Inr n \<Longrightarrow> \<exists>t. enc n = Ok t"
  shows "\<exists>ts. encode_list enc ns = Ok ts"
proof (cases "fmlookup m k")
  case None
  with assms(1,2) show ?thesis
    by (simp add: decode_field_def)
next
  case (Some v)
  with assms(1) have "decode_slice dec v old = Inr ns"
    by (simp add: decode_field_def)
  from decode_slice_cases [OF this] show ?thesis
  proof (elim disjE conjE exE)
    assume "ns = []"
    then show ?thesis by simp
  next
    fix es assume "decode_list dec es = Inr ns"
    then have "\<exists>ts. encode_list enc ns = Ok ts \<and> list_all2 (\<lambda>e t. True) es ts"
      by (rule list_entries) (use assms(3) in blast)
    then show ?thesis by blast
  qed
qed

lemma field_slice_names:
  assumes "decode_field m k (decode_slice dec) old = Inr ns"
    and "fmlookup m k = Some v"
    and "encode_list enc ns = Ok ts"
    and "\<And>e n. dec e = Inr n \<Longrightarrow> \<exists>t. enc n = Ok t \<and> entry_name t = entry_name e"
  shows "map entry_name ts = (case v of YSeq es \<Rightarrow> map entry_name es | _ \<Rightarrow> [])"
proof -
  from assms(1,2) have "decode_slice dec v old = Inr ns"
    by (simp add: decode_field_def)
  from decode_slice_cases [OF this] show ?thesis
  proof (elim disjE conjE exE)
    assume "v = YNull" "ns = []"
    with assms(3) show ?thesis by simp
  next
    fix es assume v: "v = YSeq es" and d: "decode_list dec es = Inr ns"
    from d have "\<exists>ts. encode_list enc ns = Ok ts \<and> list_all2 (\<lambda>e t. entry_name t = entry_name e) es ts"
      by (rule list_entries) (rule assms(4))
    with assms(3) have "list_all2 (\<lambda>e t. entry_name t = entry_name e) es ts"
      by simp
    then have "map entry_name ts = map entry_name es"
      by (induction rule: list_all2_induct) simp_all
    with v show ?thesis by simp
  qed
qed

lemma field_slice_at:
  assumes "decode_field m k (decode_slice dec) old = Inr ns"
    and "fmlookup m k = Some (YSeq es)"
    and "\<And>e n. dec e = Inr n \<Longrightarrow> \<exists>t. enc n = Ok t"
    and "i < length es"
    and "\<And>n. dec (es ! i) = Inr n \<Longrightarrow> \<exists>t. enc n = Ok t \<and> at q t = r"
  shows "\<exists>ts. encode_list enc ns = Ok ts \<and> at (Index i # q) (YSeq ts) = r"
proof -
  from assms(1,2) have "decode_list dec es = Inr ns"
    by (simp add: decode_field_def)
  then show ?thesis
    using assms(3,4,5) by (rule list_at)
qed

text \<open>
  An entry of one of the three lists is an \<^verbatim>\<open>NCluster\<close>, \<^verbatim>\<open>NContext\<close> or \<^verbatim>\<open>NUser\<close>, which
  has two fields and no inline map: after decoding and encoding, an entry has its name
  and its \<^verbatim>\<open>cluster\<close>, \<^verbatim>\<open>context\<close> or \<^verbatim>\<open>user\<close>, and no other key.
\<close>

lemma NCluster_entry_keys:
  assumes "decode_ptr decode_NCluster zero_NCluster (YMap m) None = Inr n"
    and "encode_ptr (encode_NCluster key_less) n = Ok t"
    and "k \<noteq> ''name''" and "k \<noteq> ''cluster''"
  shows "at [Key k] t = None"
proof -
  from decode_ptr_cases [OF assms(1)] obtain x where n: "n = Some x"
    by auto
  with assms(2) obtain v where "t = YMap (fmupd ''cluster'' v (fmupd ''name'' (YStr (NCluster_Name x)) fmempty))"
    by (auto simp add: encode_ptr_def encode_NCluster_def outcome_bind_Ok_iff)
  with assms(3,4) show ?thesis
    by simp
qed

lemma NContext_entry_keys:
  assumes "decode_ptr decode_NContext zero_NContext (YMap m) None = Inr n"
    and "encode_ptr (encode_NContext key_less) n = Ok t"
    and "k \<noteq> ''name''" and "k \<noteq> ''context''"
  shows "at [Key k] t = None"
proof -
  from decode_ptr_cases [OF assms(1)] obtain x where n: "n = Some x"
    by auto
  with assms(2) obtain v where "t = YMap (fmupd ''context'' v (fmupd ''name'' (YStr (NContext_Name x)) fmempty))"
    by (auto simp add: encode_ptr_def encode_NContext_def outcome_bind_Ok_iff)
  with assms(3,4) show ?thesis
    by simp
qed

lemma NUser_entry_keys:
  assumes "decode_ptr decode_NUser zero_NUser (YMap m) None = Inr n"
    and "encode_ptr (encode_NUser key_less) n = Ok t"
    and "k \<noteq> ''name''" and "k \<noteq> ''user''"
  shows "at [Key k] t = None"
proof -
  from decode_ptr_cases [OF assms(1)] obtain x where n: "n = Some x"
    by auto
  with assms(2) obtain v where "t = YMap (fmupd ''user'' v (fmupd ''name'' (YStr (NUser_Name x)) fmempty))"
    by (auto simp add: encode_ptr_def encode_NUser_def outcome_bind_Ok_iff)
  with assms(3,4) show ?thesis
    by simp
qed

section \<open>Load followed by String\<close>

lemma top_fields_lookup:
  "fmlookup (top_fields cl co us cur) ''clusters'' = (if cl = [] then None else Some (YSeq cl))"
  "fmlookup (top_fields cl co us cur) ''contexts'' = (if co = [] then None else Some (YSeq co))"
  "fmlookup (top_fields cl co us cur) ''users'' = (if us = [] then None else Some (YSeq us))"
  by (simp_all add: top_fields_def omitempty_string_def omitempty_seq_def)

lemma encode_KubeConfig_Ok:
  "encode_KubeConfig key_less c = Ok t \<longleftrightarrow>
     (\<exists>cl co us.
        encode_list (encode_ptr (encode_NCluster key_less)) (KubeConfig_Clusters c) = Ok cl
      \<and> encode_list (encode_ptr (encode_NContext key_less)) (KubeConfig_Contexts c) = Ok co
      \<and> encode_list (encode_ptr (encode_NUser key_less)) (KubeConfig_Users c) = Ok us
      \<and> encode_inline key_less KubeConfig_keys (KubeConfig_O c) (top_fields cl co us (KubeConfig_Current c)) = Ok t)"
  by (simp add: encode_KubeConfig_def outcome_bind_Ok_iff top_fields_def)

lemma decode_KubeConfig_fields:
  assumes "decode_KubeConfig (YMap m) c = Inr c'"
  shows "decode_field m ''clusters''
           (decode_slice (\<lambda>v. decode_ptr decode_NCluster zero_NCluster v None))
           (KubeConfig_Clusters c) = Inr (KubeConfig_Clusters c')"
    and "decode_field m ''contexts''
           (decode_slice (\<lambda>v. decode_ptr decode_NContext zero_NContext v None))
           (KubeConfig_Contexts c) = Inr (KubeConfig_Contexts c')"
    and "decode_field m ''users''
           (decode_slice (\<lambda>v. decode_ptr decode_NUser zero_NUser v None))
           (KubeConfig_Users c) = Inr (KubeConfig_Users c')"
    and "decode_field m ''current-context'' decode_string (KubeConfig_Current c)
           = Inr (KubeConfig_Current c')"
  using assms by (auto simp add: sum_bind_Inr_iff)

lemma NCluster_encodable:
  "decode_ptr decode_NCluster zero_NCluster e None = Inr n \<Longrightarrow> \<exists>t. encode_ptr (encode_NCluster key_less) n = Ok t"
  using NCluster_entry by blast

lemma NContext_encodable:
  "decode_ptr decode_NContext zero_NContext e None = Inr n \<Longrightarrow> \<exists>t. encode_ptr (encode_NContext key_less) n = Ok t"
  using NContext_entry by blast

lemma NUser_encodable:
  "decode_ptr decode_NUser zero_NUser e None = Inr n \<Longrightarrow> \<exists>t. encode_ptr (encode_NUser key_less) n = Ok t"
  using NUser_entry by blast

lemma encode_after_decode:
  assumes d: "decode_KubeConfig (YMap m) c = Inr c'" and e: "encode_KubeConfig key_less c = Ok t0"
  shows "\<exists>cl co us.
        encode_list (encode_ptr (encode_NCluster key_less)) (KubeConfig_Clusters c') = Ok cl
      \<and> encode_list (encode_ptr (encode_NContext key_less)) (KubeConfig_Contexts c') = Ok co
      \<and> encode_list (encode_ptr (encode_NUser key_less)) (KubeConfig_Users c') = Ok us
      \<and> encode_KubeConfig key_less c' = Ok (YMap (top_fields cl co us (KubeConfig_Current c')
            ++\<^sub>f fmfilter (\<lambda>k. k \<notin> set KubeConfig_keys) (fmmap resolved m)))"
proof -
  from e obtain cl0 co0 us0 where
    old: "encode_list (encode_ptr (encode_NCluster key_less)) (KubeConfig_Clusters c) = Ok cl0"
      "encode_list (encode_ptr (encode_NContext key_less)) (KubeConfig_Contexts c) = Ok co0"
      "encode_list (encode_ptr (encode_NUser key_less)) (KubeConfig_Users c) = Ok us0"
    by (auto simp add: encode_KubeConfig_Ok)
  note f = decode_KubeConfig_fields [OF d]
  obtain cl where cl: "encode_list (encode_ptr (encode_NCluster key_less)) (KubeConfig_Clusters c') = Ok cl"
    using field_slice_encodable [OF f(1) old(1)] NCluster_encodable by blast
  obtain co where co: "encode_list (encode_ptr (encode_NContext key_less)) (KubeConfig_Contexts c') = Ok co"
    using field_slice_encodable [OF f(2) old(2)] NContext_encodable by blast
  obtain us where us: "encode_list (encode_ptr (encode_NUser key_less)) (KubeConfig_Users c') = Ok us"
    using field_slice_encodable [OF f(3) old(3)] NUser_encodable by blast
  have "encode_KubeConfig key_less c' = Ok (YMap (top_fields cl co us (KubeConfig_Current c')
            ++\<^sub>f fmfilter (\<lambda>k. k \<notin> set KubeConfig_keys) (fmmap resolved m)))"
    unfolding encode_KubeConfig_Ok
    using cl co us by (simp add: decode_KubeConfig_O [OF d] encode_inline_decoded)
  with cl co us show ?thesis by blast
qed

lemma String_Ok:
  "encode_KubeConfig key_less c = Ok out \<Longrightarrow> KubeConfig_String key_less emit c = Ok (emit out)"
  by (simp add: KubeConfig_String_def yaml_Marshal_def outcome_bind_def)

lemma decode_KubeConfig_YMap:
  assumes "decode_KubeConfig doc c = Inr c'" and "at (Key k # p) doc = Some v"
  obtains m where "doc = YMap m"
  using assms by (cases doc) auto

lemma top_at_named:
  assumes "k \<in> set KubeConfig_keys"
  shows "at (Key k # p) (YMap (top_fields cl co us cur ++\<^sub>f fmfilter (\<lambda>k. k \<notin> set KubeConfig_keys) (fmmap resolved m)))
       = at (Key k # p) (YMap (top_fields cl co us cur))"
  using assms by (rule at_Key_named)

lemma seq_at:
  "fmlookup named k = (if ts = [] then None else Some (YSeq ts)) \<Longrightarrow>
   at (Index i # q) (YSeq ts) = Some w \<Longrightarrow> at (Key k # Index i # q) (YMap named) = Some w"
  by (auto split: if_splits)

lemma seq_at_None:
  "fmlookup named k = (if ts = [] then None else Some (YSeq ts)) \<Longrightarrow>
   at (Index i # q) (YSeq ts) = None \<Longrightarrow> at (Key k # Index i # q) (YMap named) = None"
  by (auto split: if_splits)

lemma seq_names:
  "fmlookup named k = (if ts = [] then None else Some (YSeq ts)) \<Longrightarrow>
   entry_names k (YMap named) = map entry_name ts"
  by (auto simp add: entry_names_def)

lemma level_keys_cases:
  assumes "level_keys p = Some keys"
  shows "(p = [] \<and> keys = KubeConfig_keys)
       \<or> (\<exists>i. p = [Key ''clusters'', Index i, Key ''cluster''] \<and> keys = Cluster_keys)
       \<or> (\<exists>i. p = [Key ''contexts'', Index i, Key ''context''] \<and> keys = Context_keys)
       \<or> (\<exists>i. p = [Key ''users'', Index i, Key ''user''] \<and> keys = User_keys)
       \<or> (\<exists>i. p = [Key ''users'', Index i, Key ''user'', Key ''auth-provider'']
              \<and> keys = AuthProvider_keys)"
  using assms by (induction p rule: level_keys.induct) (auto split: if_splits)

lemma entry_keys_cases:
  assumes "entry_keys p = Some keys"
  shows "(\<exists>i. p = [Key ''clusters'', Index i] \<and> keys = NCluster_keys)
       \<or> (\<exists>i. p = [Key ''contexts'', Index i] \<and> keys = NContext_keys)
       \<or> (\<exists>i. p = [Key ''users'', Index i] \<and> keys = NUser_keys)"
  using assms by (induction p rule: entry_keys.induct) (auto split: if_splits)

lemma at_entry:
  assumes "at (Key l # Index i # q) (YMap m) = Some w"
  obtains es where "fmlookup m l = Some (YSeq es)" and "i < length es"
    and "at q (es ! i) = Some w"
  using assms by (auto simp add: at_Index_YSeq split: option.splits)

lemma at_two:
  assumes "at [Key a, Key b] e = Some w"
  obtains im where "at [Key a] e = Some (YMap im)" and "fmlookup im b = Some w"
  using assms by (auto simp add: at_Key_YMap)

lemma decode_slice_old: "decode_slice dec v old = decode_slice dec v old'"
  by (cases v) simp_all

lemma decode_field_slice_other:
  assumes "decode_field m k (decode_slice dec) old = Inr x"
  shows "decode_field m k (decode_slice dec) old' = Inr (if k |\<in>| fmdom m then x else old')"
    and "k |\<notin>| fmdom m \<Longrightarrow> x = old"
  using assms decode_slice_old [of dec _ old old']
  by (auto simp add: decode_field_def fmlookup_dom_iff split: option.splits)

lemma decode_field_string_other:
  assumes "decode_field m k decode_string old = Inr x"
  shows "decode_field m k decode_string old' = Inr (if k |\<in>| fmdom m then x else old')"
    and "k |\<notin>| fmdom m \<Longrightarrow> x = old"
  using assms
  by (auto simp add: decode_field_def decode_string_def fmlookup_dom_iff split: option.splits)

lemma sample_extra:
  "sample_ReadFile ''extra.yaml'' = Inr extra_text"
  "sample_parse extra_text = Inr (Some extra_doc)"
  "KubeConfig_Load sample_ReadFile sample_parse ''extra.yaml'' zero_KubeConfig = Inr extra_loaded"
  by code_simp+

lemma sample_order:
  "sample_ReadFile ''order.yaml'' = Inr order_text"
  "sample_parse order_text = Inr (Some order_doc)"
  "KubeConfig_Load sample_ReadFile sample_parse ''order.yaml'' zero_KubeConfig = Inr order_loaded"
  by code_simp+

lemma sample_current:
  "sample_ReadFile ''current.yaml'' = Inr current_text"
  "sample_parse current_text = Inr (Some current_doc)"
  "KubeConfig_Load sample_ReadFile sample_parse ''current.yaml'' old_cluster
     = Inr (old_cluster\<lparr>KubeConfig_Current := ''prod''\<rparr>)"
  by code_simp+

lemma encode_zero_KubeConfig: "encode_KubeConfig key_less zero_KubeConfig = Ok (YMap fmempty)"
  by code_simp

text \<open>
  A key that is not the key of a named field, in the document itself or inside the
  \<^verbatim>\<open>cluster\<close>, \<^verbatim>\<open>context\<close>, \<^verbatim>\<open>user\<close> or \<^verbatim>\<open>auth-provider\<close> mapping of an entry, goes
  through the inline map of its struct and is written again at the same place.
\<close>

lemma unknown_key_kept:
  assumes src: "ReadFile path = Inr buf" "parse buf = Inr (Some doc)"
    and load: "KubeConfig_Load ReadFile parse path c = Inr c'"
    and old: "encode_KubeConfig key_less c = Ok t0"
    and level: "level_keys p = Some keys"
    and place: "at p doc = Some (YMap m')"
    and pair: "fmlookup m' k = Some v"
    and unknown: "k \<notin> set keys"
  shows "\<exists>out. encode_KubeConfig key_less c' = Ok out \<and> KubeConfig_String key_less emit c' = Ok (emit out)
           \<and> at (p @ [Key k]) out = Some (resolved v)"
proof -
  from load src have d: "decode_KubeConfig doc c = Inr c'"
    by (simp add: KubeConfig_Load_def yaml_Unmarshal_def)
  have "\<exists>m. doc = YMap m"
    using level_keys_cases [OF level] place d by (cases doc) auto
  then obtain m where doc: "doc = YMap m" ..
  from d doc have dm: "decode_KubeConfig (YMap m) c = Inr c'"
    by simp
  note f = decode_KubeConfig_fields [OF dm]
  from encode_after_decode [OF dm old] obtain cl co us where
    cl: "encode_list (encode_ptr (encode_NCluster key_less)) (KubeConfig_Clusters c') = Ok cl"
    and co: "encode_list (encode_ptr (encode_NContext key_less)) (KubeConfig_Contexts c') = Ok co"
    and us: "encode_list (encode_ptr (encode_NUser key_less)) (KubeConfig_Users c') = Ok us"
    and out: "encode_KubeConfig key_less c' = Ok (YMap (top_fields cl co us (KubeConfig_Current c')
            ++\<^sub>f fmfilter (\<lambda>k. k \<notin> set KubeConfig_keys) (fmmap resolved m)))" (is "_ = Ok ?out")
    by blast
  have "at (p @ [Key k]) ?out = Some (resolved v)"
    using level_keys_cases [OF level]
  proof (elim disjE exE conjE)
    assume p: "p = []" and keys: "keys = KubeConfig_keys"
    from place p doc have "m' = m" by simp
    with pair unknown keys have "fmlookup m k = Some v" and "k \<notin> set KubeConfig_keys"
      by simp_all
    then show ?thesis
      unfolding p append_Nil by (rule at_Key_inline)
  next
    fix i assume p: "p = [Key ''clusters'', Index i, Key ''cluster'']" and keys: "keys = Cluster_keys"
    from place [unfolded p doc] obtain es where es: "fmlookup m ''clusters'' = Some (YSeq es)"
      and i: "i < length es" and e: "at [Key ''cluster''] (es ! i) = Some (YMap m')"
      by (rule at_entry)
    have "\<exists>ts. encode_list (encode_ptr (encode_NCluster key_less)) (KubeConfig_Clusters c') = Ok ts
            \<and> at (Index i # [Key ''cluster'', Key k]) (YSeq ts) = Some (resolved v)"
      using f(1) es _ i
    proof (rule field_slice_at)
      fix e n assume "decode_ptr decode_NCluster zero_NCluster e None = Inr n"
      then show "\<exists>t. encode_ptr (encode_NCluster key_less) n = Ok t" by (rule NCluster_encodable)
    next
      fix n assume "decode_ptr decode_NCluster zero_NCluster (es ! i) None = Inr n"
      then show "\<exists>t. encode_ptr (encode_NCluster key_less) n = Ok t \<and> at [Key ''cluster'', Key k] t = Some (resolved v)"
        using e
      proof (rule NCluster_inner)
        fix s assume "decode_Cluster (YMap m') zero_Cluster = Inr s"
        then show "\<exists>t. encode_Cluster key_less s = Ok t \<and> at [Key k] t = Some (resolved v)"
          using pair unknown [unfolded keys] by (rule Cluster_unknown)
      qed
    qed
    with cl have "at (Index i # [Key ''cluster'', Key k]) (YSeq cl) = Some (resolved v)"
      by auto
    with top_fields_lookup(1) have "at (Key ''clusters'' # Index i # [Key ''cluster'', Key k])
        (YMap (top_fields cl co us (KubeConfig_Current c'))) = Some (resolved v)"
      by (rule seq_at)
    moreover have "''clusters'' \<in> set KubeConfig_keys"
      by (simp add: KubeConfig_keys_def)
    ultimately show ?thesis
      unfolding p by (simp only: append_Cons append_Nil top_at_named)
  next
    fix i assume p: "p = [Key ''contexts'', Index i, Key ''context'']" and keys: "keys = Context_keys"
    from place [unfolded p doc] obtain es where es: "fmlookup m ''contexts'' = Some (YSeq es)"
      and i: "i < length es" and e: "at [Key ''context''] (es ! i) = Some (YMap m')"
      by (rule at_entry)
    have "\<exists>ts. encode_list (encode_ptr (encode_NContext key_less)) (KubeConfig_Contexts c') = Ok ts
            \<and> at (Index i # [Key ''context'', Key k]) (YSeq ts) = Some (resolved v)"
      using f(2) es _ i
    proof (rule field_slice_at)
      fix e n assume "decode_ptr decode_NContext zero_NContext e None = Inr n"
      then show "\<exists>t. encode_ptr (encode_NContext key_less) n = Ok t" by (rule NContext_encodable)
    next
      fix n assume "decode_ptr decode_NContext zero_NContext (es ! i) None = Inr n"
      then show "\<exists>t. encode_ptr (encode_NContext key_less) n = Ok t \<and> at [Key ''context'', Key k] t = Some (resolved v)"
        using e
      proof (rule NContext_inner)
        fix s assume "decode_Context (YMap m') zero_Context = Inr s"
        then show "\<exists>t. encode_Context key_less s = Ok t \<and> at [Key k] t = Some (resolved v)"
          using pair unknown [unfolded keys] by (rule Context_unknown)
      qed
    qed
    with co have "at (Index i # [Key ''context'', Key k]) (YSeq co) = Some (resolved v)"
      by auto
    with top_fields_lookup(2) have "at (Key ''contexts'' # Index i # [Key ''context'', Key k])
        (YMap (top_fields cl co us (KubeConfig_Current c'))) = Some (resolved v)"
      by (rule seq_at)
    moreover have "''contexts'' \<in> set KubeConfig_keys"
      by (simp add: KubeConfig_keys_def)
    ultimately show ?thesis
      unfolding p by (simp only: append_Cons append_Nil top_at_named)
  next
    fix i assume p: "p = [Key ''users'', Index i, Key ''user'']" and keys: "keys = User_keys"
    from place [unfolded p doc] obtain es where es: "fmlookup m ''users'' = Some (YSeq es)"
      and i: "i < length es" and e: "at [Key ''user''] (es ! i) = Some (YMap m')"
      by (rule at_entry)
    have "\<exists>ts. encode_list (encode_ptr (encode_NUser key_less)) (KubeConfig_Users c') = Ok ts
            \<and> at (Index i # [Key ''user'', Key k]) (YSeq ts) = Some (resolved v)"
      using f(3) es _ i
    proof (rule field_slice_at)
      fix e n assume "decode_ptr decode_NUser zero_NUser e None = Inr n"
      then show "\<exists>t. encode_ptr (encode_NUser key_less) n = Ok t" by (rule NUser_encodable)
    next
      fix n assume "decode_ptr decode_NUser zero_NUser (es ! i) None = Inr n"
      then show "\<exists>t. encode_ptr (encode_NUser key_less) n = Ok t \<and> at [Key ''user'', Key k] t = Some (resolved v)"
        using e
      proof (rule NUser_inner)
        fix s assume "decode_User (YMap m') zero_User = Inr s"
        then show "\<exists>t. encode_User key_less s = Ok t \<and> at [Key k] t = Some (resolved v)"
          using zero_User_Auth pair unknown [unfolded keys] by (rule User_unknown)
      qed
    qed
    with us have "at (Index i # [Key ''user'', Key k]) (YSeq us) = Some (resolved v)"
      by auto
    with top_fields_lookup(3) have "at (Key ''users'' # Index i # [Key ''user'', Key k])
        (YMap (top_fields cl co us (KubeConfig_Current c'))) = Some (resolved v)"
      by (rule seq_at)
    moreover have "''users'' \<in> set KubeConfig_keys"
      by (simp add: KubeConfig_keys_def)
    ultimately show ?thesis
      unfolding p by (simp only: append_Cons append_Nil top_at_named)
  next
    fix i assume p: "p = [Key ''users'', Index i, Key ''user'', Key ''auth-provider'']"
      and keys: "keys = AuthProvider_keys"
    from place [unfolded p doc] obtain es where es: "fmlookup m ''users'' = Some (YSeq es)"
      and i: "i < length es"
      and e: "at [Key ''user'', Key ''auth-provider''] (es ! i) = Some (YMap m')"
      by (rule at_entry)
    from e obtain um where um: "at [Key ''user''] (es ! i) = Some (YMap um)"
      and am: "fmlookup um ''auth-provider'' = Some (YMap m')"
      by (rule at_two)
    have "\<exists>ts. encode_list (encode_ptr (encode_NUser key_less)) (KubeConfig_Users c') = Ok ts
            \<and> at (Index i # [Key ''user'', Key ''auth-provider'', Key k]) (YSeq ts) = Some (resolved v)"
      using f(3) es _ i
    proof (rule field_slice_at)
      fix e n assume "decode_ptr decode_NUser zero_NUser e None = Inr n"
      then show "\<exists>t. encode_ptr (encode_NUser key_less) n = Ok t" by (rule NUser_encodable)
    next
      fix n assume "decode_ptr decode_NUser zero_NUser (es ! i) None = Inr n"
      then show "\<exists>t. encode_ptr (encode_NUser key_less) n = Ok t
             \<and> at [Key ''user'', Key ''auth-provider'', Key k] t = Some (resolved v)"
        using um
      proof (rule NUser_inner)
        fix s assume "decode_User (YMap um) zero_User = Inr s"
        then show "\<exists>t. encode_User key_less s = Ok t \<and> at [Key ''auth-provider'', Key k] t = Some (resolved v)"
          using zero_User_Auth am pair unknown [unfolded keys] by (rule User_auth_unknown)
      qed
    qed
    with us have "at (Index i # [Key ''user'', Key ''auth-provider'', Key k]) (YSeq us) = Some (resolved v)"
      by auto
    with top_fields_lookup(3)
    have "at (Key ''users'' # Index i # [Key ''user'', Key ''auth-provider'', Key k])
        (YMap (top_fields cl co us (KubeConfig_Current c'))) = Some (resolved v)"
      by (rule seq_at)
    moreover have "''users'' \<in> set KubeConfig_keys"
      by (simp add: KubeConfig_keys_def)
    ultimately show ?thesis
      unfolding p by (simp only: append_Cons append_Nil top_at_named)
  qed
  with out String_Ok [OF out] show ?thesis
    by blast
qed

text \<open>
  A key written in an entry of one of the three lists, beside the name and the
  \<^verbatim>\<open>cluster\<close>, \<^verbatim>\<open>context\<close> or \<^verbatim>\<open>user\<close> of the entry, has no field and no inline map to go to:
  the entry that is written has no such key.
\<close>

lemma entry_key_dropped:
  assumes src: "ReadFile path = Inr buf" "parse buf = Inr (Some doc)"
    and load: "KubeConfig_Load ReadFile parse path c = Inr c'"
    and old: "encode_KubeConfig key_less c = Ok t0"
    and level: "entry_keys p = Some keys"
    and place: "at p doc = Some (YMap m')"
    and unknown: "k \<notin> set keys"
  shows "\<exists>out. encode_KubeConfig key_less c' = Ok out \<and> KubeConfig_String key_less emit c' = Ok (emit out)
           \<and> at (p @ [Key k]) out = None"
proof -
  from load src have d: "decode_KubeConfig doc c = Inr c'"
    by (simp add: KubeConfig_Load_def yaml_Unmarshal_def)
  have "\<exists>m. doc = YMap m"
    using entry_keys_cases [OF level] place d by (cases doc) auto
  then obtain m where doc: "doc = YMap m" ..
  from d doc have dm: "decode_KubeConfig (YMap m) c = Inr c'"
    by simp
  note f = decode_KubeConfig_fields [OF dm]
  from encode_after_decode [OF dm old] obtain cl co us where
    cl: "encode_list (encode_ptr (encode_NCluster key_less)) (KubeConfig_Clusters c') = Ok cl"
    and co: "encode_list (encode_ptr (encode_NContext key_less)) (KubeConfig_Contexts c') = Ok co"
    and us: "encode_list (encode_ptr (encode_NUser key_less)) (KubeConfig_Users c') = Ok us"
    and out: "encode_KubeConfig key_less c' = Ok (YMap (top_fields cl co us (KubeConfig_Current c')
            ++\<^sub>f fmfilter (\<lambda>k. k \<notin> set KubeConfig_keys) (fmmap resolved m)))" (is "_ = Ok ?out")
    by blast
  have "at (p @ [Key k]) ?out = None"
    using entry_keys_cases [OF level]
  proof (elim disjE exE conjE)
    fix i assume p: "p = [Key ''clusters'', Index i]" and keys: "keys = NCluster_keys"
    from unknown keys have k: "k \<noteq> ''name''" "k \<noteq> ''cluster''"
      by (simp_all add: NCluster_keys_def)
    from place [unfolded p doc] obtain es where es: "fmlookup m ''clusters'' = Some (YSeq es)"
      and i: "i < length es" and e: "at [] (es ! i) = Some (YMap m')"
      by (rule at_entry)
    from e have e: "es ! i = YMap m'"
      by simp
    have "\<exists>ts. encode_list (encode_ptr (encode_NCluster key_less)) (KubeConfig_Clusters c') = Ok ts
            \<and> at (Index i # [Key k]) (YSeq ts) = None"
      using f(1) es _ i
    proof (rule field_slice_at)
      fix e n assume "decode_ptr decode_NCluster zero_NCluster e None = Inr n"
      then show "\<exists>t. encode_ptr (encode_NCluster key_less) n = Ok t" by (rule NCluster_encodable)
    next
      fix n assume n: "decode_ptr decode_NCluster zero_NCluster (es ! i) None = Inr n"
      then obtain t where t: "encode_ptr (encode_NCluster key_less) n = Ok t"
        using NCluster_encodable by blast
      from n [unfolded e] t k have "at [Key k] t = None"
        by (rule NCluster_entry_keys)
      with t show "\<exists>t. encode_ptr (encode_NCluster key_less) n = Ok t \<and> at [Key k] t = None"
        by blast
    qed
    with cl have "at (Index i # [Key k]) (YSeq cl) = None"
      by auto
    with top_fields_lookup(1) have "at (Key ''clusters'' # Index i # [Key k])
        (YMap (top_fields cl co us (KubeConfig_Current c'))) = None"
      by (rule seq_at_None)
    moreover have "''clusters'' \<in> set KubeConfig_keys"
      by (simp add: KubeConfig_keys_def)
    ultimately show ?thesis
      unfolding p by (simp only: append_Cons append_Nil top_at_named)
  next
    fix i assume p: "p = [Key ''contexts'', Index i]" and keys: "keys = NContext_keys"
    from unknown keys have k: "k \<noteq> ''name''" "k \<noteq> ''context''"
      by (simp_all add: NContext_keys_def)
    from place [unfolded p doc] obtain es where es: "fmlookup m ''contexts'' = Some (YSeq es)"
      and i: "i < length es" and e: "at [] (es ! i) = Some (YMap m')"
      by (rule at_entry)
    from e have e: "es ! i = YMap m'"
      by simp
    have "\<exists>ts. encode_list (encode_ptr (encode_NContext key_less)) (KubeConfig_Contexts c') = Ok ts
            \<and> at (Index i # [Key k]) (YSeq ts) = None"
      using f(2) es _ i
    proof (rule field_slice_at)
      fix e n assume "decode_ptr decode_NContext zero_NContext e None = Inr n"
      then show "\<exists>t. encode_ptr (encode_NContext key_less) n = Ok t" by (rule NContext_encodable)
    next
      fix n assume n: "decode_ptr decode_NContext zero_NContext (es ! i) None = Inr n"
      then obtain t where t: "encode_ptr (encode_NContext key_less) n = Ok t"
        using NContext_encodable by blast
      from n [unfolded e] t k have "at [Key k] t = None"
        by (rule NContext_entry_keys)
      with t show "\<exists>t. encode_ptr (encode_NContext key_less) n = Ok t \<and> at [Key k] t = None"
        by blast
    qed
    with co have "at (Index i # [Key k]) (YSeq co) = None"
      by auto
    with top_fields_lookup(2) have "at (Key ''contexts'' # Index i # [Key k])
        (YMap (top_fields cl co us (KubeConfig_Current c'))) = None"
      by (rule seq_at_None)
    moreover have "''contexts'' \<in> set KubeConfig_keys"
      by (simp add: KubeConfig_keys_def)
    ultimately show ?thesis
      unfolding p by (simp only: append_Cons append_Nil top_at_named)
  next
    fix i assume p: "p = [Key ''users'', Index i]" and keys: "keys = NUser_keys"
    from unknown keys have k: "k \<noteq> ''name''" "k \<noteq> ''user''"
      by (simp_all add: NUser_keys_def)
    from place [unfolded p doc] obtain es where es: "fmlookup m ''users'' = Some (YSeq es)"
      and i: "i < length es" and e: "at [] (es ! i) = Some (YMap m')"
      by (rule at_entry)
    from e have e: "es ! i = YMap m'"
      by simp
    have "\<exists>ts. encode_list (encode_ptr (encode_NUser key_less)) (KubeConfig_Users c') = Ok ts
            \<and> at (Index i # [Key k]) (YSeq ts) = None"
      using f(3) es _ i
    proof (rule field_slice_at)
      fix e n assume "decode_ptr decode_NUser zero_NUser e None = Inr n"
      then show "\<exists>t. encode_ptr (encode_NUser key_less) n = Ok t" by (rule NUser_encodable)
    next
      fix n assume n: "decode_ptr decode_NUser zero_NUser (es ! i) None = Inr n"
      then obtain t where t: "encode_ptr (encode_NUser key_less) n = Ok t"
        using NUser_encodable by blast
      from n [unfolded e] t k have "at [Key k] t = None"
        by (rule NUser_entry_keys)
      with t show "\<exists>t. encode_ptr (encode_NUser key_less) n = Ok t \<and> at [Key k] t = None"
        by blast
    qed
    with us have "at (Index i # [Key k]) (YSeq us) = None"
      by auto
    with top_fields_lookup(3) have "at (Key ''users'' # Index i # [Key k])
        (YMap (top_fields cl co us (KubeConfig_Current c'))) = None"
      by (rule seq_at_None)
    moreover have "''users'' \<in> set KubeConfig_keys"
      by (simp add: KubeConfig_keys_def)
    ultimately show ?thesis
      unfolding p by (simp only: append_Cons append_Nil top_at_named)
  qed
  with out String_Ok [OF out] show ?thesis
    by blast
qed

lemma sample_entry:
  "sample_ReadFile ''entry.yaml'' = Inr entry_text"
  "sample_parse entry_text = Inr (Some entry_doc)"
  "KubeConfig_Load sample_ReadFile sample_parse ''entry.yaml'' zero_KubeConfig = Inr entry_loaded"
  by code_simp+

lemma sample_encoded:
  "encode_KubeConfig bytes_less extra_loaded = Ok extra_doc"
  "encode_KubeConfig bytes_less entry_loaded = Ok entry_out"
  "encode_KubeConfig bytes_less order_loaded = Ok order_out"
  by code_simp+

lemma sample_written:
  "sample_emit extra_doc = extra_out_text"
  "sample_emit entry_out = entry_out_text"
  "sample_emit order_out = order_out_text"
  by code_simp+

text \<open>
  Claim C4, as it is stated, fails at a key inside an entry of \<^verbatim>\<open>clusters\<close>: the file
  \<^verbatim>\<open>entry.yaml\<close> has the key \<^verbatim>\<open>note\<close> beside \<^verbatim>\<open>name\<close> and \<^verbatim>\<open>cluster\<close>, \<^verbatim>\<open>Load\<close> accepts the
  file, and the text that \<^verbatim>\<open>String\<close> returns has the entry without that key. \<^verbatim>\<open>NCluster\<close> has
  the fields \<^verbatim>\<open>Name\<close> and \<^verbatim>\<open>Cluster\<close> and no \<^verbatim>\<open>O\<close>; \<^verbatim>\<open>NContext\<close> and \<^verbatim>\<open>NUser\<close> are alike.
\<close>

theorem Load_String_entry_key_counterexample:
  "sample_ReadFile ''entry.yaml'' = Inr entry_text
   \<and> sample_parse entry_text = Inr (Some entry_doc)
   \<and> at [Key ''clusters'', Index 0, Key ''note''] entry_doc = Some (YStr ''keep'')
   \<and> KubeConfig_Load sample_ReadFile sample_parse ''entry.yaml'' zero_KubeConfig = Inr entry_loaded
   \<and> encode_KubeConfig bytes_less entry_loaded = Ok entry_out
   \<and> at [Key ''clusters'', Index 0, Key ''note''] entry_out = None
   \<and> KubeConfig_String bytes_less sample_emit entry_loaded = Ok entry_out_text"
  by code_simp

text \<open>
  Claim C4, amended. Take a KUBECONFIG document that \<^verbatim>\<open>Load\<close> accepts, a receiver that
  could be serialized before the call, and a key with its value in one of the mappings
  of the document. Then \<^verbatim>\<open>String\<close> on the loaded KubeConfig returns the text of a value
  for which two things hold. If the mapping is the document itself or the \<^verbatim>\<open>cluster\<close>,
  \<^verbatim>\<open>context\<close>, \<^verbatim>\<open>user\<close> or \<^verbatim>\<open>auth-provider\<close> mapping of an entry, and the key is not the key
  of a named field there, the value has the same key at the same place, beside the named
  fields, with the value the document gives it, resolved: an integer or a boolean is
  written in the spelling of the encoder, whatever its spelling in the document. If the
  mapping is an entry of \<^verbatim>\<open>clusters\<close>, \<^verbatim>\<open>contexts\<close> or \<^verbatim>\<open>users\<close>, and the key is not \<^verbatim>\<open>name\<close>
  and not the \<^verbatim>\<open>cluster\<close>, \<^verbatim>\<open>context\<close> or \<^verbatim>\<open>user\<close> of the entry, the value does not have the
  key at that place.
\<close>

theorem Load_String_unknown_key:
  assumes src: "ReadFile path = Inr buf" "parse buf = Inr (Some doc)"
    and load: "KubeConfig_Load ReadFile parse path c = Inr c'"
    and old: "encode_KubeConfig key_less c = Ok t0"
    and place: "at p doc = Some (YMap m')"
    and pair: "fmlookup m' k = Some v"
  shows "\<exists>out. encode_KubeConfig key_less c' = Ok out
           \<and> KubeConfig_String key_less emit c' = Ok (emit out)
           \<and> (\<forall>keys. level_keys p = Some keys \<and> k \<notin> set keys
                 \<longrightarrow> at (p @ [Key k]) out = Some (resolved v))
           \<and> (\<forall>keys. entry_keys p = Some keys \<and> k \<notin> set keys
                 \<longrightarrow> at (p @ [Key k]) out = None)"
proof -
  from load src have d: "decode_KubeConfig doc c = Inr c'"
    by (simp add: KubeConfig_Load_def yaml_Unmarshal_def)
  have "\<exists>m. doc = YMap m"
  proof (cases p)
    case Nil
    with place show ?thesis by simp
  next
    case (Cons s q)
    with place d show ?thesis by (cases doc) auto
  qed
  then obtain m where doc: "doc = YMap m" ..
  from d doc have dm: "decode_KubeConfig (YMap m) c = Inr c'"
    by simp
  from encode_after_decode [OF dm old] obtain out
    where out: "encode_KubeConfig key_less c' = Ok out"
    by blast
  have kept: "at (p @ [Key k]) out = Some (resolved v)"
    if "level_keys p = Some keys" and "k \<notin> set keys" for keys
    using unknown_key_kept [OF src load old that(1) place pair that(2), of emit] out
    by auto
  have dropped: "at (p @ [Key k]) out = None"
    if "entry_keys p = Some keys" and "k \<notin> set keys" for keys
    using entry_key_dropped [OF src load old that(1) place that(2), of emit] out
    by auto
  from out String_Ok [OF out] kept dropped show ?thesis
    by blast
qed

theorem Load_String_unknown_key_witness:
  "(\<exists>out. encode_KubeConfig bytes_less extra_loaded = Ok out
      \<and> KubeConfig_String bytes_less sample_emit extra_loaded = Ok (sample_emit out)
      \<and> sample_emit out = extra_out_text
      \<and> at [Key ''apiVersion''] out = Some (YStr ''v1'')
      \<and> at [Key ''clusters'', Index 0, Key ''cluster'', Key ''extensions''] out
          = Some (YInt 1 ''1'')
      \<and> at [Key ''contexts'', Index 0, Key ''context'', Key ''color''] out
          = Some (YStr ''blue'')
      \<and> at [Key ''users'', Index 0, Key ''user'', Key ''exec''] out = Some (YStr ''kubectl'')
      \<and> at [Key ''users'', Index 0, Key ''user'', Key ''auth-provider'', Key ''flavor''] out
          = Some (YStr ''plain''))
   \<and> (\<exists>out. encode_KubeConfig bytes_less entry_loaded = Ok out
      \<and> KubeConfig_String bytes_less sample_emit entry_loaded = Ok (sample_emit out)
      \<and> sample_emit out = entry_out_text
      \<and> at [Key ''clusters'', Index 0, Key ''note''] out = None)"
proof -
  note extra = Load_String_unknown_key [where emit = sample_emit and key_less = bytes_less,
      OF sample_extra encode_zero_KubeConfig]
  note entry = Load_String_unknown_key [where emit = sample_emit and key_less = bytes_less,
      OF sample_entry encode_zero_KubeConfig]
  have top: "KubeConfig_String bytes_less sample_emit extra_loaded = Ok (sample_emit extra_doc)
      \<and> at [Key ''apiVersion''] extra_doc = Some (YStr ''v1'')"
  proof -
    have level: "level_keys [] = Some KubeConfig_keys"
      by simp
    have unknown: "''apiVersion'' \<notin> set KubeConfig_keys"
      by (simp add: KubeConfig_keys_def)
    obtain m where place: "at [] extra_doc = Some (YMap m)"
      and pair: "fmlookup m ''apiVersion'' = Some (YStr ''v1'')"
      by (simp add: extra_doc_def)
    from extra [OF place pair] obtain out
      where "encode_KubeConfig bytes_less extra_loaded = Ok out"
        and "KubeConfig_String bytes_less sample_emit extra_loaded = Ok (sample_emit out)"
        and "\<forall>keys. level_keys [] = Some keys \<and> ''apiVersion'' \<notin> set keys
               \<longrightarrow> at ([] @ [Key ''apiVersion'']) out = Some (resolved (YStr ''v1''))"
      by blast
    with level unknown sample_encoded(1) show ?thesis
      by simp
  qed
  have cluster: "at [Key ''clusters'', Index 0, Key ''cluster'', Key ''extensions''] extra_doc
       = Some (YInt 1 ''1'')"
  proof -
    have level: "level_keys [Key ''clusters'', Index 0, Key ''cluster''] = Some Cluster_keys"
      by simp
    have unknown: "''extensions'' \<notin> set Cluster_keys"
      by (simp add: Cluster_keys_def)
    have spelling: "resolved (YInt 1 ''1'') = YInt 1 ''1''"
      by code_simp
    obtain m where place: "at [Key ''clusters'', Index 0, Key ''cluster''] extra_doc = Some (YMap m)"
      and pair: "fmlookup m ''extensions'' = Some (YInt 1 ''1'')"
      by (simp add: extra_doc_def)
    from extra [OF place pair] obtain out
      where "encode_KubeConfig bytes_less extra_loaded = Ok out"
        and "\<forall>keys. level_keys [Key ''clusters'', Index 0, Key ''cluster''] = Some keys
                 \<and> ''extensions'' \<notin> set keys
               \<longrightarrow> at ([Key ''clusters'', Index 0, Key ''cluster''] @ [Key ''extensions'']) out
                   = Some (resolved (YInt 1 ''1''))"
      by blast
    with level unknown sample_encoded(1) spelling show ?thesis
      by simp
  qed
  have ctx: "at [Key ''contexts'', Index 0, Key ''context'', Key ''color''] extra_doc
       = Some (YStr ''blue'')"
  proof -
    have level: "level_keys [Key ''contexts'', Index 0, Key ''context''] = Some Context_keys"
      by simp
    have unknown: "''color'' \<notin> set Context_keys"
      by (simp add: Context_keys_def)
    obtain m where place: "at [Key ''contexts'', Index 0, Key ''context''] extra_doc = Some (YMap m)"
      and pair: "fmlookup m ''color'' = Some (YStr ''blue'')"
      by (simp add: extra_doc_def)
    from extra [OF place pair] obtain out
      where "encode_KubeConfig bytes_less extra_loaded = Ok out"
        and "\<forall>keys. level_keys [Key ''contexts'', Index 0, Key ''context''] = Some keys
                 \<and> ''color'' \<notin> set keys
               \<longrightarrow> at ([Key ''contexts'', Index 0, Key ''context''] @ [Key ''color'']) out
                   = Some (resolved (YStr ''blue''))"
      by blast
    with level unknown sample_encoded(1) show ?thesis
      by simp
  qed
  have user: "at [Key ''users'', Index 0, Key ''user'', Key ''exec''] extra_doc
       = Some (YStr ''kubectl'')"
  proof -
    have level: "level_keys [Key ''users'', Index 0, Key ''user''] = Some User_keys"
      by simp
    have unknown: "''exec'' \<notin> set User_keys"
      by (simp add: User_keys_def)
    obtain m where place: "at [Key ''users'', Index 0, Key ''user''] extra_doc = Some (YMap m)"
      and pair: "fmlookup m ''exec'' = Some (YStr ''kubectl'')"
      by (simp add: extra_doc_def)
    from extra [OF place pair] obtain out
      where "encode_KubeConfig bytes_less extra_loaded = Ok out"
        and "\<forall>keys. level_keys [Key ''users'', Index 0, Key ''user''] = Some keys
                 \<and> ''exec'' \<notin> set keys
               \<longrightarrow> at ([Key ''users'', Index 0, Key ''user''] @ [Key ''exec'']) out
                   = Some (resolved (YStr ''kubectl''))"
      by blast
    with level unknown sample_encoded(1) show ?thesis
      by simp
  qed
  have auth: "at [Key ''users'', Index 0, Key ''user'', Key ''auth-provider'', Key ''flavor'']
        extra_doc = Some (YStr ''plain'')"
  proof -
    have level: "level_keys [Key ''users'', Index 0, Key ''user'', Key ''auth-provider'']
        = Some AuthProvider_keys"
      by simp
    have unknown: "''flavor'' \<notin> set AuthProvider_keys"
      by (simp add: AuthProvider_keys_def)
    obtain m where place:
        "at [Key ''users'', Index 0, Key ''user'', Key ''auth-provider''] extra_doc = Some (YMap m)"
      and pair: "fmlookup m ''flavor'' = Some (YStr ''plain'')"
      by (simp add: extra_doc_def)
    from extra [OF place pair] obtain out
      where "encode_KubeConfig bytes_less extra_loaded = Ok out"
        and "\<forall>keys. level_keys [Key ''users'', Index 0, Key ''user'', Key ''auth-provider'']
                   = Some keys \<and> ''flavor'' \<notin> set keys
               \<longrightarrow> at ([Key ''users'', Index 0, Key ''user'', Key ''auth-provider'']
                       @ [Key ''flavor'']) out
                   = Some (resolved (YStr ''plain''))"
      by blast
    with level unknown sample_encoded(1) show ?thesis
      by simp
  qed
  have dropped: "KubeConfig_String bytes_less sample_emit entry_loaded = Ok (sample_emit entry_out)
      \<and> at [Key ''clusters'', Index 0, Key ''note''] entry_out = None"
  proof -
    have level: "entry_keys [Key ''clusters'', Index 0] = Some NCluster_keys"
      by simp
    have unknown: "''note'' \<notin> set NCluster_keys"
      by (simp add: NCluster_keys_def)
    obtain m where place: "at [Key ''clusters'', Index 0] entry_doc = Some (YMap m)"
      and pair: "fmlookup m ''note'' = Some (YStr ''keep'')"
      by (simp add: entry_doc_def)
    from entry [OF place pair] obtain out
      where "encode_KubeConfig bytes_less entry_loaded = Ok out"
        and "KubeConfig_String bytes_less sample_emit entry_loaded = Ok (sample_emit out)"
        and "\<forall>keys. entry_keys [Key ''clusters'', Index 0] = Some keys \<and> ''note'' \<notin> set keys
               \<longrightarrow> at ([Key ''clusters'', Index 0] @ [Key ''note'']) out = None"
      by blast
    with level unknown sample_encoded(2) show ?thesis
      by simp
  qed
  have "\<exists>out. encode_KubeConfig bytes_less extra_loaded = Ok out
      \<and> KubeConfig_String bytes_less sample_emit extra_loaded = Ok (sample_emit out)
      \<and> sample_emit out = extra_out_text
      \<and> at [Key ''apiVersion''] out = Some (YStr ''v1'')
      \<and> at [Key ''clusters'', Index 0, Key ''cluster'', Key ''extensions''] out
          = Some (YInt 1 ''1'')
      \<and> at [Key ''contexts'', Index 0, Key ''context'', Key ''color''] out
          = Some (YStr ''blue'')
      \<and> at [Key ''users'', Index 0, Key ''user'', Key ''exec''] out = Some (YStr ''kubectl'')
      \<and> at [Key ''users'', Index 0, Key ''user'', Key ''auth-provider'', Key ''flavor''] out
          = Some (YStr ''plain'')"
    using sample_encoded(1) sample_written(1) top cluster ctx user auth
    by (intro exI [of _ extra_doc] conjI) blast+
  moreover have "\<exists>out. encode_KubeConfig bytes_less entry_loaded = Ok out
      \<and> KubeConfig_String bytes_less sample_emit entry_loaded = Ok (sample_emit out)
      \<and> sample_emit out = entry_out_text
      \<and> at [Key ''clusters'', Index 0, Key ''note''] out = None"
    using sample_encoded(2) sample_written(2) dropped
    by (intro exI [of _ entry_out] conjI) blast+
  ultimately show ?thesis
    by (rule conjI)
qed

text \<open>
  Claim C6. Take a document that \<^verbatim>\<open>Load\<close> accepts, a receiver that could be serialized
  before the call, and one of the keys \<^verbatim>\<open>clusters\<close>, \<^verbatim>\<open>contexts\<close>, \<^verbatim>\<open>users\<close> that the document
  has. Then \<^verbatim>\<open>String\<close> on the loaded KubeConfig returns the text of a value whose entries
  under that key have the names of the document's entries, one by one in the same order:
  the entries \<^verbatim>\<open>b\<close>, \<^verbatim>\<open>a\<close>, \<^verbatim>\<open>c\<close> come out as \<^verbatim>\<open>b\<close>, \<^verbatim>\<open>a\<close>, \<^verbatim>\<open>c\<close>.
\<close>

theorem Load_String_keeps_order:
  assumes src: "ReadFile path = Inr buf" "parse buf = Inr (Some doc)"
    and load: "KubeConfig_Load ReadFile parse path c = Inr c'"
    and old: "encode_KubeConfig key_less c = Ok t0"
    and k: "k = ''clusters'' \<or> k = ''contexts'' \<or> k = ''users''"
    and present: "at [Key k] doc = Some v"
  shows "\<exists>out. encode_KubeConfig key_less c' = Ok out \<and> KubeConfig_String key_less emit c' = Ok (emit out)
           \<and> entry_names k out = entry_names k doc"
proof -
  from load src have d: "decode_KubeConfig doc c = Inr c'"
    by (simp add: KubeConfig_Load_def yaml_Unmarshal_def)
  from d present obtain m where doc: "doc = YMap m"
    by (rule decode_KubeConfig_YMap)
  from present doc have v: "fmlookup m k = Some v"
    by (simp split: option.splits)
  from d doc have dm: "decode_KubeConfig (YMap m) c = Inr c'"
    by simp
  note f = decode_KubeConfig_fields [OF dm]
  from encode_after_decode [OF dm old] obtain cl co us where
    cl: "encode_list (encode_ptr (encode_NCluster key_less)) (KubeConfig_Clusters c') = Ok cl"
    and co: "encode_list (encode_ptr (encode_NContext key_less)) (KubeConfig_Contexts c') = Ok co"
    and us: "encode_list (encode_ptr (encode_NUser key_less)) (KubeConfig_Users c') = Ok us"
    and out: "encode_KubeConfig key_less c' = Ok (YMap (top_fields cl co us (KubeConfig_Current c')
            ++\<^sub>f fmfilter (\<lambda>k. k \<notin> set KubeConfig_keys) (fmmap resolved m)))" (is "_ = Ok ?out")
    by blast
  have key: "k \<in> set KubeConfig_keys"
    using k by (auto simp add: KubeConfig_keys_def)
  have names_doc: "entry_names k doc = (case v of YSeq es \<Rightarrow> map entry_name es | _ \<Rightarrow> [])"
    using present by (simp add: entry_names_def)
  have "entry_names k ?out = entry_names k (YMap (top_fields cl co us (KubeConfig_Current c')))"
    unfolding entry_names_def by (simp only: top_at_named [OF key])
  also have "\<dots> = (case v of YSeq es \<Rightarrow> map entry_name es | _ \<Rightarrow> [])"
    using k
  proof (elim disjE)
    assume k: "k = ''clusters''"
    show ?thesis
      unfolding k seq_names [OF top_fields_lookup(1)]
      using f(1) v [unfolded k] cl by (rule field_slice_names) (rule NCluster_entry)
  next
    assume k: "k = ''contexts''"
    show ?thesis
      unfolding k seq_names [OF top_fields_lookup(2)]
      using f(2) v [unfolded k] co by (rule field_slice_names) (rule NContext_entry)
  next
    assume k: "k = ''users''"
    show ?thesis
      unfolding k seq_names [OF top_fields_lookup(3)]
      using f(3) v [unfolded k] us by (rule field_slice_names) (rule NUser_entry)
  qed
  finally have "entry_names k ?out = entry_names k doc"
    using names_doc by simp
  with out String_Ok [OF out] show ?thesis
    by blast
qed

theorem Load_String_keeps_order_witness:
  "(\<exists>out. KubeConfig_String bytes_less sample_emit order_loaded = Ok (sample_emit out)
      \<and> entry_names ''clusters'' out = [Some ''b'', Some ''a'', Some ''c''])
   \<and> (\<exists>out. KubeConfig_String bytes_less sample_emit extra_loaded = Ok (sample_emit out)
      \<and> entry_names ''contexts'' out = [Some ''dev''])
   \<and> (\<exists>out. KubeConfig_String bytes_less sample_emit extra_loaded = Ok (sample_emit out)
      \<and> entry_names ''users'' out = [Some ''me''])"
proof (intro conjI)
  show "\<exists>out. KubeConfig_String bytes_less sample_emit order_loaded = Ok (sample_emit out)
      \<and> entry_names ''clusters'' out = [Some ''b'', Some ''a'', Some ''c'']"
  proof -
    obtain v where present: "at [Key ''clusters''] order_doc = Some v"
      by (simp add: order_doc_def)
    have names: "entry_names ''clusters'' order_doc = [Some ''b'', Some ''a'', Some ''c'']"
      by (simp add: entry_names_def order_doc_def)
    from Load_String_keeps_order [where emit = sample_emit and k = "''clusters''",
        OF sample_order encode_zero_KubeConfig _ present] names
    show ?thesis
      by auto
  qed
  show "\<exists>out. KubeConfig_String bytes_less sample_emit extra_loaded = Ok (sample_emit out)
      \<and> entry_names ''contexts'' out = [Some ''dev'']"
  proof -
    obtain v where present: "at [Key ''contexts''] extra_doc = Some v"
      by (simp add: extra_doc_def)
    have names: "entry_names ''contexts'' extra_doc = [Some ''dev'']"
      by (simp add: entry_names_def extra_doc_def)
    from Load_String_keeps_order [where emit = sample_emit and k = "''contexts''",
        OF sample_extra encode_zero_KubeConfig _ present] names
    show ?thesis
      by auto
  qed
  show "\<exists>out. KubeConfig_String bytes_less sample_emit extra_loaded = Ok (sample_emit out)
      \<and> entry_names ''users'' out = [Some ''me'']"
  proof -
    obtain v where present: "at [Key ''users''] extra_doc = Some v"
      by (simp add: extra_doc_def)
    have names: "entry_names ''users'' extra_doc = [Some ''me'']"
      by (simp add: entry_names_def extra_doc_def)
    from Load_String_keeps_order [where emit = sample_emit and k = "''users''",
        OF sample_extra encode_zero_KubeConfig _ present] names
    show ?thesis
      by auto
  qed
qed

section \<open>What String does with a failure of the encoder\<close>

text \<open>
  Claim C8, as it is stated, fails: when \<^verbatim>\<open>yaml.Marshal\<close> returns an error, \<^verbatim>\<open>String\<close>
  drops it and returns the empty string; nothing fatal happens and nothing tells the
  caller. The value below has an \<^verbatim>\<open>O\<close> entry whose \<^verbatim>\<open>MarshalYAML\<close> fails.
\<close>

theorem KubeConfig_String_counterexample:
  "yaml_Marshal bytes_less sample_emit failing_config = Err (MarshalError ''MarshalYAML'')
   \<and> KubeConfig_String bytes_less sample_emit failing_config = Ok []"
  by code_simp

text \<open>
  Claim C8, amended. \<^verbatim>\<open>String\<close> never returns an error. It returns the bytes of
  \<^verbatim>\<open>yaml.Marshal\<close> when there are some; it returns the empty string when \<^verbatim>\<open>yaml.Marshal\<close>
  returns an error, which is dropped; and it panics when \<^verbatim>\<open>yaml.Marshal\<close> panics, as
  for a key of \<^verbatim>\<open>O\<close> that is the key of a named field.
\<close>

theorem KubeConfig_String_outcomes:
  "KubeConfig_String key_less emit c \<noteq> Err err
   \<and> (yaml_Marshal key_less emit c = Ok buf \<longrightarrow> KubeConfig_String key_less emit c = Ok buf)
   \<and> (yaml_Marshal key_less emit c = Err err \<longrightarrow> KubeConfig_String key_less emit c = Ok [])
   \<and> (yaml_Marshal key_less emit c = Panic \<longrightarrow> KubeConfig_String key_less emit c = Panic)"
  by (simp add: KubeConfig_String_def split: outcome.splits)

theorem KubeConfig_String_outcomes_witness:
  "KubeConfig_String bytes_less sample_emit zero_KubeConfig = Ok ''{}\<newline>''
   \<and> KubeConfig_String bytes_less sample_emit failing_config = Ok []
   \<and> KubeConfig_String bytes_less sample_emit conflicting_config = Panic"
proof -
  have a: "yaml_Marshal bytes_less sample_emit zero_KubeConfig = Ok ''{}\<newline>''"
    by code_simp
  have b: "yaml_Marshal bytes_less sample_emit failing_config = Err (MarshalError ''MarshalYAML'')"
    by code_simp
  have c: "yaml_Marshal bytes_less sample_emit conflicting_config = Panic"
    by code_simp
  show ?thesis
    using KubeConfig_String_outcomes [of bytes_less sample_emit zero_KubeConfig _ "''{}\<newline>''"]
      KubeConfig_String_outcomes [of bytes_less sample_emit failing_config
        "MarshalError ''MarshalYAML''"]
      KubeConfig_String_outcomes [of bytes_less sample_emit conflicting_config]
      a b c by blast
qed

section \<open>What Load does to the receiver\<close>

text \<open>
  Claim C9, as it is stated, fails: the file \<^verbatim>\<open>current-context: prod\<close> loaded into a new
  KubeConfig and into one that holds a cluster gives two different receivers; the
  cluster is still there after the call.
\<close>

theorem Load_overwrites_counterexample:
  "KubeConfig_Load sample_ReadFile sample_parse ''current.yaml'' zero_KubeConfig
     = Inr current_loaded
   \<and> KubeConfig_Load sample_ReadFile sample_parse ''current.yaml'' old_cluster
     = Inr (old_cluster\<lparr>KubeConfig_Current := ''prod''\<rparr>)
   \<and> current_loaded \<noteq> old_cluster\<lparr>KubeConfig_Current := ''prod''\<rparr>"
  by code_simp

text \<open>
  Claim C9, amended. After a successful \<^verbatim>\<open>Load\<close> of a file whose document is a mapping,
  each of the fields \<^verbatim>\<open>Clusters\<close>, \<^verbatim>\<open>Contexts\<close>, \<^verbatim>\<open>Users\<close> and \<^verbatim>\<open>Current\<close> whose key is in
  the file has the value the file alone gives it, the one a new KubeConfig receives from
  the same file; a field whose key is not in the file keeps the value the receiver held
  before the call; and \<^verbatim>\<open>O\<close> is what the file alone gives. A file without a document
  leaves the receiver as it was, and a null document sets it to the zero value.
\<close>

theorem Load_overwrites_fields_in_file:
  assumes src: "ReadFile path = Inr buf" "parse buf = Inr d"
    and load: "KubeConfig_Load ReadFile parse path c = Inr c'"
  shows "(d = None \<longrightarrow> c' = c)
       \<and> (d = Some YNull \<longrightarrow> c' = zero_KubeConfig)
       \<and> (\<forall>m. d = Some (YMap m) \<longrightarrow>
            (\<exists>r. KubeConfig_Load ReadFile parse path zero_KubeConfig = Inr r
               \<and> KubeConfig_Clusters c' =
                   (if ''clusters'' |\<in>| fmdom m then KubeConfig_Clusters r else KubeConfig_Clusters c)
               \<and> KubeConfig_Contexts c' =
                   (if ''contexts'' |\<in>| fmdom m then KubeConfig_Contexts r else KubeConfig_Contexts c)
               \<and> KubeConfig_Users c' =
                   (if ''users'' |\<in>| fmdom m then KubeConfig_Users r else KubeConfig_Users c)
               \<and> KubeConfig_Current c' =
                   (if ''current-context'' |\<in>| fmdom m then KubeConfig_Current r else KubeConfig_Current c)
               \<and> KubeConfig_O c' = KubeConfig_O r))"
proof (intro conjI impI allI)
  assume "d = None"
  with src load show "c' = c"
    by (simp add: KubeConfig_Load_def yaml_Unmarshal_def)
next
  assume "d = Some YNull"
  with src load show "c' = zero_KubeConfig"
    by (simp add: KubeConfig_Load_def yaml_Unmarshal_def)
next
  fix m assume d: "d = Some (YMap m)"
  with src load have dm: "decode_KubeConfig (YMap m) c = Inr c'"
    by (simp add: KubeConfig_Load_def yaml_Unmarshal_def)
  note f = decode_KubeConfig_fields [OF dm]
  let ?r = "\<lparr>KubeConfig_Clusters = (if ''clusters'' |\<in>| fmdom m then KubeConfig_Clusters c' else []),
             KubeConfig_Contexts = (if ''contexts'' |\<in>| fmdom m then KubeConfig_Contexts c' else []),
             KubeConfig_Users = (if ''users'' |\<in>| fmdom m then KubeConfig_Users c' else []),
             KubeConfig_Current = (if ''current-context'' |\<in>| fmdom m then KubeConfig_Current c' else []),
             KubeConfig_O = inline_O KubeConfig_keys m\<rparr>"
  have "decode_KubeConfig (YMap m) zero_KubeConfig = Inr ?r"
    using decode_field_slice_other(1) [OF f(1), of "[]"] decode_field_slice_other(1) [OF f(2), of "[]"]
      decode_field_slice_other(1) [OF f(3), of "[]"] decode_field_string_other(1) [OF f(4), of "[]"]
    by (simp add: zero_KubeConfig_def sum_bind_def)
  with src d have "KubeConfig_Load ReadFile parse path zero_KubeConfig = Inr ?r"
    by (simp add: KubeConfig_Load_def yaml_Unmarshal_def)
  moreover have "KubeConfig_Clusters c' = (if ''clusters'' |\<in>| fmdom m then KubeConfig_Clusters ?r else KubeConfig_Clusters c)"
    using decode_field_slice_other(2) [OF f(1)] by simp
  moreover have "KubeConfig_Contexts c' = (if ''contexts'' |\<in>| fmdom m then KubeConfig_Contexts ?r else KubeConfig_Contexts c)"
    using decode_field_slice_other(2) [OF f(2)] by simp
  moreover have "KubeConfig_Users c' = (if ''users'' |\<in>| fmdom m then KubeConfig_Users ?r else KubeConfig_Users c)"
    using decode_field_slice_other(2) [OF f(3)] by simp
  moreover have "KubeConfig_Current c' = (if ''current-context'' |\<in>| fmdom m then KubeConfig_Current ?r else KubeConfig_Current c)"
    using decode_field_string_other(2) [OF f(4)] by simp
  moreover have "KubeConfig_O c' = KubeConfig_O ?r"
    using decode_KubeConfig_O [OF dm] by simp
  ultimately show "\<exists>r. KubeConfig_Load ReadFile parse path zero_KubeConfig = Inr r
               \<and> KubeConfig_Clusters c' =
                   (if ''clusters'' |\<in>| fmdom m then KubeConfig_Clusters r else KubeConfig_Clusters c)
               \<and> KubeConfig_Contexts c' =
                   (if ''contexts'' |\<in>| fmdom m then KubeConfig_Contexts r else KubeConfig_Contexts c)
               \<and> KubeConfig_Users c' =
                   (if ''users'' |\<in>| fmdom m then KubeConfig_Users r else KubeConfig_Users c)
               \<and> KubeConfig_Current c' =
                   (if ''current-context'' |\<in>| fmdom m then KubeConfig_Current r else KubeConfig_Current c)
               \<and> KubeConfig_O c' = KubeConfig_O r"
    by blast
qed

theorem Load_overwrites_fields_in_file_witness:
  "(\<exists>r. KubeConfig_Load sample_ReadFile sample_parse ''current.yaml'' zero_KubeConfig = Inr r
      \<and> KubeConfig_Current (old_cluster\<lparr>KubeConfig_Current := ''prod''\<rparr>) = KubeConfig_Current r
      \<and> KubeConfig_Clusters (old_cluster\<lparr>KubeConfig_Current := ''prod''\<rparr>)
          = KubeConfig_Clusters old_cluster
      \<and> KubeConfig_O (old_cluster\<lparr>KubeConfig_Current := ''prod''\<rparr>) = KubeConfig_O r)
   \<and> KubeConfig_Load sample_ReadFile sample_parse ''empty.yaml'' old_cluster = Inr old_cluster
   \<and> KubeConfig_Load sample_ReadFile sample_parse ''null.yaml'' old_cluster = Inr zero_KubeConfig"
proof (intro conjI)
  show "\<exists>r. KubeConfig_Load sample_ReadFile sample_parse ''current.yaml'' zero_KubeConfig = Inr r
      \<and> KubeConfig_Current (old_cluster\<lparr>KubeConfig_Current := ''prod''\<rparr>) = KubeConfig_Current r
      \<and> KubeConfig_Clusters (old_cluster\<lparr>KubeConfig_Current := ''prod''\<rparr>)
          = KubeConfig_Clusters old_cluster
      \<and> KubeConfig_O (old_cluster\<lparr>KubeConfig_Current := ''prod''\<rparr>) = KubeConfig_O r"
    using Load_overwrites_fields_in_file [OF sample_current]
    by (simp add: current_doc_def)
next
  have bytes: "sample_ReadFile ''empty.yaml'' = Inr []"
    and doc: "sample_parse [] = Inr None"
    by code_simp+
  obtain c' where load: "KubeConfig_Load sample_ReadFile sample_parse ''empty.yaml'' old_cluster = Inr c'"
    by (simp add: KubeConfig_Load_def yaml_Unmarshal_def bytes doc)
  from Load_overwrites_fields_in_file [OF bytes doc load] have "c' = old_cluster"
    by simp
  with load show "KubeConfig_Load sample_ReadFile sample_parse ''empty.yaml'' old_cluster
      = Inr old_cluster"
    by simp
next
  have bytes: "sample_ReadFile ''null.yaml'' = Inr ''null\<newline>''"
    and doc: "sample_parse ''null\<newline>'' = Inr (Some YNull)"
    by code_simp+
  obtain c' where load: "KubeConfig_Load sample_ReadFile sample_parse ''null.yaml'' old_cluster = Inr c'"
    by (simp add: KubeConfig_Load_def yaml_Unmarshal_def bytes doc)
  from Load_overwrites_fields_in_file [OF bytes doc load] have "c' = zero_KubeConfig"
    by simp
  with load show "KubeConfig_Load sample_ReadFile sample_parse ''null.yaml'' old_cluster
      = Inr zero_KubeConfig"
    by simp
qed

end
